theory Spec2Isabelle
  imports Complex_Main
begin

section \<open>JavaScript numbers\<close>

text \<open>
  The calculator works on JavaScript numbers. A number is modelled as an exact real
  extended with the special values the arithmetic of the source can produce: \<open>NaN\<close>
  (an empty or unparsable field, \<open>0/0\<close>), the two infinities (division by zero) and
  the negative zero. \<open>Fin 0\<close> is the positive zero, \<open>NZero\<close> the negative one.
  Arithmetic on finite values is exact: the rounding of double precision and overflow
  to infinity are not part of the model.
\<close>

datatype jsnum = NaN | PInf | NInf | NZero | Fin real

fun is_neg :: "jsnum \<Rightarrow> bool" where
  "is_neg NaN = False"
| "is_neg PInf = False"
| "is_neg NInf = True"
| "is_neg NZero = True"
| "is_neg (Fin x) = (x < 0)"

fun is_inf :: "jsnum \<Rightarrow> bool" where
  "is_inf PInf = True"
| "is_inf NInf = True"
| "is_inf _ = False"

fun is_fin :: "jsnum \<Rightarrow> bool" where
  "is_fin NZero = True"
| "is_fin (Fin x) = True"
| "is_fin _ = False"

fun is_zero :: "jsnum \<Rightarrow> bool" where
  "is_zero NZero = True"
| "is_zero (Fin x) = (x = 0)"
| "is_zero _ = False"

fun rv :: "jsnum \<Rightarrow> real" where
  "rv (Fin x) = x"
| "rv _ = 0"

definition signed_inf :: "bool \<Rightarrow> jsnum" where
  "signed_inf neg = (if neg then NInf else PInf)"

definition signed_zero :: "bool \<Rightarrow> jsnum" where
  "signed_zero neg = (if neg then NZero else Fin 0)"

text \<open>\<open>!x\<close> is true of \<open>NaN\<close> and of both zeros; \<open>truthy\<close> is its negation.\<close>

definition truthy :: "jsnum \<Rightarrow> bool" where
  "truthy x = (x \<noteq> NaN \<and> \<not> is_zero x)"

definition js_mul :: "jsnum \<Rightarrow> jsnum \<Rightarrow> jsnum" where
  "js_mul a b =
     (if a = NaN \<or> b = NaN then NaN
      else if (is_inf a \<and> is_zero b) \<or> (is_zero a \<and> is_inf b) then NaN
      else if is_inf a \<or> is_inf b then signed_inf (is_neg a \<noteq> is_neg b)
      else if is_zero a \<or> is_zero b then signed_zero (is_neg a \<noteq> is_neg b)
      else Fin (rv a * rv b))"

definition js_div :: "jsnum \<Rightarrow> jsnum \<Rightarrow> jsnum" where
  "js_div a b =
     (if a = NaN \<or> b = NaN then NaN
      else if (is_inf a \<and> is_inf b) \<or> (is_zero a \<and> is_zero b) then NaN
      else if is_inf a \<or> is_zero b then signed_inf (is_neg a \<noteq> is_neg b)
      else if is_inf b \<or> is_zero a then signed_zero (is_neg a \<noteq> is_neg b)
      else Fin (rv a / rv b))"

definition js_add :: "jsnum \<Rightarrow> jsnum \<Rightarrow> jsnum" where
  "js_add a b =
     (if a = NaN \<or> b = NaN then NaN
      else if is_inf a \<and> is_inf b then (if a = b then a else NaN)
      else if is_inf a then a
      else if is_inf b then b
      else if is_zero a \<and> is_zero b then signed_zero (is_neg a \<and> is_neg b)
      else Fin (rv a + rv b))"

fun js_neg :: "jsnum \<Rightarrow> jsnum" where
  "js_neg NaN = NaN"
| "js_neg PInf = NInf"
| "js_neg NInf = PInf"
| "js_neg NZero = Fin 0"
| "js_neg (Fin x) = (if x = 0 then NZero else Fin (- x))"

definition js_sub :: "jsnum \<Rightarrow> jsnum \<Rightarrow> jsnum" where
  "js_sub a b = js_add a (js_neg b)"

fun js_abs :: "jsnum \<Rightarrow> jsnum" where
  "js_abs NaN = NaN"
| "js_abs PInf = PInf"
| "js_abs NInf = PInf"
| "js_abs NZero = Fin 0"
| "js_abs (Fin x) = Fin \<bar>x\<bar>"

text \<open>Comparisons: false whenever an operand is \<open>NaN\<close>; the two zeros are equal.\<close>

fun js_lt :: "jsnum \<Rightarrow> jsnum \<Rightarrow> bool" where
  "js_lt NaN _ = False"
| "js_lt _ NaN = False"
| "js_lt PInf _ = False"
| "js_lt _ NInf = False"
| "js_lt _ PInf = True"
| "js_lt NInf _ = True"
| "js_lt a b = (rv a < rv b)"

fun js_le :: "jsnum \<Rightarrow> jsnum \<Rightarrow> bool" where
  "js_le NaN _ = False"
| "js_le _ NaN = False"
| "js_le NInf _ = True"
| "js_le _ PInf = True"
| "js_le PInf _ = False"
| "js_le _ NInf = False"
| "js_le a b = (rv a \<le> rv b)"

definition js_gt :: "jsnum \<Rightarrow> jsnum \<Rightarrow> bool" where
  "js_gt a b = js_lt b a"

definition js_ge :: "jsnum \<Rightarrow> jsnum \<Rightarrow> bool" where
  "js_ge a b = js_le b a"

text \<open>
  \<open>Math.max\<close> and \<open>Math.min\<close> return \<open>NaN\<close> when an argument is \<open>NaN\<close>, and
  order the negative zero below the positive one.
\<close>

definition js_max :: "jsnum \<Rightarrow> jsnum \<Rightarrow> jsnum" where
  "js_max a b =
     (if a = NaN \<or> b = NaN then NaN
      else if js_lt a b then b
      else if js_lt b a then a
      else if is_zero a \<and> is_neg a then b
      else a)"

definition js_min :: "jsnum \<Rightarrow> jsnum \<Rightarrow> jsnum" where
  "js_min a b =
     (if a = NaN \<or> b = NaN then NaN
      else if js_lt a b then a
      else if js_lt b a then b
      else if is_zero a \<and> is_neg a then a
      else b)"

text \<open>
  \<open>Math.round\<close>: the nearest integer, a tie going up; a negative argument that rounds
  to zero gives the negative zero.
\<close>

fun js_round :: "jsnum \<Rightarrow> jsnum" where
  "js_round (Fin x) =
     (if \<lfloor>x + 1 / 2\<rfloor> = 0 then signed_zero (x < 0) else Fin (of_int \<lfloor>x + 1 / 2\<rfloor>))"
| "js_round a = a"

section \<open>The calculator with automatic leverage\<close>

datatype position_type = Long | Short

record leverage_info =
  optimal :: jsnum
  riskPercentageMove :: jsnum
  explanation :: string

definition getLeverageExplanation :: "jsnum \<Rightarrow> jsnum \<Rightarrow> string" where
  "getLeverageExplanation leverage riskMove =
     (if js_ge riskMove (Fin 10) then ''High risk distance - using minimal leverage for safety''
      else if js_ge riskMove (Fin 5) then ''Moderate risk distance - conservative leverage recommended''
      else if js_ge riskMove (Fin 3) then ''Balanced risk distance - moderate leverage suitable''
      else if js_ge riskMove (Fin 2) then ''Low risk distance - higher leverage acceptable''
      else ''Tight stop loss - maximum safe leverage calculated'')"

text \<open>The local constants of \<open>calculateOptimalLeverage\<close>, in the order of the source.\<close>

definition lev_riskPercentageMove :: "jsnum \<Rightarrow> jsnum \<Rightarrow> jsnum" where
  "lev_riskPercentageMove entry stop =
     js_mul (js_div (js_abs (js_sub entry stop)) entry) (Fin 100)"

definition lev_optimalLeverage :: "jsnum \<Rightarrow> jsnum \<Rightarrow> jsnum \<Rightarrow> jsnum \<Rightarrow> jsnum" where
  "lev_optimalLeverage capital riskPct allocation rpm =
     (let maxRiskAmount = js_div (js_mul capital riskPct) (Fin 100);
          allocatedCapital = js_div (js_mul capital allocation) (Fin 100)
      in js_div maxRiskAmount (js_mul allocatedCapital (js_div rpm (Fin 100))))"

definition lev_clamped :: "jsnum \<Rightarrow> jsnum \<Rightarrow> jsnum" where
  "lev_clamped optimalLeverage maxLev =
     js_max (Fin 1) (js_min (js_round optimalLeverage) maxLev)"

definition lev_ladder :: "jsnum \<Rightarrow> jsnum \<Rightarrow> jsnum" where
  "lev_ladder rpm recommendedLeverage =
     (if js_ge rpm (Fin 10) then js_min recommendedLeverage (Fin 2)
      else if js_ge rpm (Fin 5) then js_min recommendedLeverage (Fin 5)
      else if js_ge rpm (Fin 3) then js_min recommendedLeverage (Fin 10)
      else if js_ge rpm (Fin 2) then js_min recommendedLeverage (Fin 20)
      else recommendedLeverage)"

definition calculateOptimalLeverage ::
  "jsnum \<Rightarrow> jsnum \<Rightarrow> jsnum \<Rightarrow> jsnum \<Rightarrow> jsnum \<Rightarrow> jsnum \<Rightarrow> leverage_info" where
  "calculateOptimalLeverage entry stop capital riskPct allocation maxLev =
     (let rpm = lev_riskPercentageMove entry stop;
          optimalLeverage = lev_optimalLeverage capital riskPct allocation rpm;
          recommendedLeverage = lev_ladder rpm (lev_clamped optimalLeverage maxLev)
      in \<lparr> optimal = recommendedLeverage,
           riskPercentageMove = rpm,
           explanation = getLeverageExplanation recommendedLeverage rpm \<rparr>)"


text \<open>
  The levels of the partial take-profit plan. The \<open>label\<close> of a level is a display
  string formatted from the same quotient as \<open>rMultiple\<close>; it is left out.
\<close>

record tp_level =
  price :: jsnum
  rMultiple :: jsnum
  description :: string

record tp_levels =
  tp1 :: tp_level
  tp2 :: tp_level
  tp3 :: tp_level

definition calculatePartialTPLevels ::
  "jsnum \<Rightarrow> jsnum \<Rightarrow> jsnum \<Rightarrow> position_type \<Rightarrow> tp_levels" where
  "calculatePartialTPLevels entry stop target positionType =
     (let riskPerCoin = js_abs (js_sub entry stop);
          tp1Price = (if positionType = Long then js_add entry riskPerCoin
                      else js_sub entry riskPerCoin);
          totalReward = js_abs (js_sub target entry);
          rrRatio = js_div totalReward riskPerCoin;
          tp2Price =
            (if js_ge rrRatio (Fin 3) then
               (if positionType = Long then js_add entry (js_mul riskPerCoin (Fin 2))
                else js_sub entry (js_mul riskPerCoin (Fin 2)))
             else if js_ge rrRatio (Fin 2) then
               (if positionType = Long then js_add entry (js_mul riskPerCoin (Fin (3 / 2)))
                else js_sub entry (js_mul riskPerCoin (Fin (3 / 2))))
             else js_div (js_add tp1Price target) (Fin 2))
      in \<lparr> tp1 = \<lparr> price = tp1Price, rMultiple = Fin 1,
                     description = ''Secure profits and move SL to entry'' \<rparr>,
           tp2 = \<lparr> price = tp2Price,
                     rMultiple = js_div (js_abs (js_sub tp2Price entry)) riskPerCoin,
                     description = ''Lock in major profits'' \<rparr>,
           tp3 = \<lparr> price = target,
                     rMultiple = js_div (js_abs (js_sub target entry)) riskPerCoin,
                     description = ''Maximum profit target'' \<rparr> \<rparr>)"

record tp_leg =
  assets :: jsnum
  profit :: jsnum
  percent :: jsnum

record tp_profits =
  leg_tp1 :: tp_leg
  leg_tp2 :: tp_leg
  leg_tp3 :: tp_leg
  totalProfit :: jsnum
  avgExitRMultiple :: jsnum

text \<open>
  The state of the component. A numeric field holds the result of \<open>parseFloat\<close> on the
  text of its input: \<open>NaN\<close> for an empty or unparsable text. \<open>positionType\<close> is set
  to "long" or "short" only.
\<close>

record app_state =
  entryPrice :: jsnum
  stopLoss :: jsnum
  takeProfit :: jsnum
  totalCapital :: jsnum
  riskPercentage :: jsnum
  assetAllocation :: jsnum
  maxLeverage :: jsnum
  positionType :: position_type
  exchangeRate :: jsnum
  isLoadingRate :: bool
  enablePartialTP :: bool
  partialTP1Percent :: jsnum
  partialTP2Percent :: jsnum

definition calculatePartialTPProfits ::
  "app_state \<Rightarrow> tp_levels \<Rightarrow> jsnum \<Rightarrow> jsnum \<Rightarrow> jsnum \<Rightarrow> tp_profits" where
  "calculatePartialTPProfits s tpLevels recommendedAssets riskPerCoin entry =
     (let tp1Percent = js_div (partialTP1Percent s) (Fin 100);
          tp2Percent = js_div (partialTP2Percent s) (Fin 100);
          tp3Percent = js_sub (js_sub (Fin 1) tp1Percent) tp2Percent;
          tp1Assets = js_mul recommendedAssets tp1Percent;
          tp2Assets = js_mul recommendedAssets tp2Percent;
          tp3Assets = js_mul recommendedAssets tp3Percent;
          tp1Profit = js_mul tp1Assets (js_abs (js_sub (price (tp1 tpLevels)) entry));
          tp2Profit = js_mul tp2Assets (js_abs (js_sub (price (tp2 tpLevels)) entry));
          tp3Profit = js_mul tp3Assets (js_abs (js_sub (price (tp3 tpLevels)) entry));
          totalProfit = js_add (js_add tp1Profit tp2Profit) tp3Profit
      in \<lparr> leg_tp1 = \<lparr> assets = tp1Assets, profit = tp1Profit,
                         percent = js_mul tp1Percent (Fin 100) \<rparr>,
           leg_tp2 = \<lparr> assets = tp2Assets, profit = tp2Profit,
                         percent = js_mul tp2Percent (Fin 100) \<rparr>,
           leg_tp3 = \<lparr> assets = tp3Assets, profit = tp3Profit,
                         percent = js_mul tp3Percent (Fin 100) \<rparr>,
           totalProfit = totalProfit,
           avgExitRMultiple = js_div totalProfit (js_mul recommendedAssets riskPerCoin) \<rparr>)"

record sizing_result =
  riskPerCoin :: jsnum
  rewardPerCoin :: jsnum
  ratio :: jsnum
  maxRiskAmount :: jsnum
  allocatedAmount :: jsnum
  leverageInfo :: "leverage_info option"
  recommendedAssets :: jsnum
  potentialLoss :: jsnum
  potentialProfit :: jsnum
  positionValue :: jsnum
  partialTPLevels :: "tp_levels option"
  partialTPProfits :: "tp_profits option"

text \<open>
  The result of an evaluation: \<open>None\<close> is \<open>null\<close> (a price is missing or zero),
  \<open>Invalid\<close> is the object with \<open>error: true\<close> and the position type, \<open>Sizing\<close>
  the full report with \<open>error: false\<close>.
\<close>

datatype calc_result = Invalid position_type | Sizing sizing_result

definition directional ::
  "position_type \<Rightarrow> jsnum \<Rightarrow> jsnum \<Rightarrow> jsnum \<Rightarrow> jsnum \<times> jsnum \<times> bool" where
  "directional pt entry stop target =
     (if pt = Long
      then (js_sub entry stop, js_sub target entry, js_lt stop entry \<and> js_gt target entry)
      else (js_sub stop entry, js_sub entry target, js_gt stop entry \<and> js_lt target entry))"

definition calculateRiskReward :: "app_state \<Rightarrow> calc_result option" where
  "calculateRiskReward s =
     (let entry = entryPrice s; stop = stopLoss s; target = takeProfit s;
          capital = totalCapital s; riskPct = riskPercentage s;
          allocation = assetAllocation s; maxLev = maxLeverage s
      in if \<not> truthy entry \<or> \<not> truthy stop \<or> \<not> truthy target then None
         else
           (let d = directional (positionType s) entry stop target;
                riskPerCoin = fst d; rewardPerCoin = fst (snd d); isValid = snd (snd d)
            in  if \<not> isValid \<or> js_le riskPerCoin (Fin 0) \<or> js_le rewardPerCoin (Fin 0)
                then Some (Invalid (positionType s))
                else
                  (let ratio = js_div rewardPerCoin riskPerCoin
                   in if truthy capital then
                        (let maxRiskAmount = js_div (js_mul capital riskPct) (Fin 100);
                             allocatedAmount = js_div (js_mul capital allocation) (Fin 100);
                             leverageInfo =
                               calculateOptimalLeverage entry stop capital riskPct allocation maxLev;
                             positionValue = js_mul allocatedAmount (optimal leverageInfo);
                             recommendedAssets = js_div positionValue entry;
                             potentialLoss = js_mul recommendedAssets riskPerCoin;
                             potentialProfit = js_mul recommendedAssets rewardPerCoin;
                             partialTPLevels =
                               calculatePartialTPLevels entry stop target (positionType s)
                         in Some (Sizing
                             \<lparr> riskPerCoin = riskPerCoin, rewardPerCoin = rewardPerCoin,
                               ratio = ratio, maxRiskAmount = maxRiskAmount,
                               allocatedAmount = allocatedAmount,
                               leverageInfo = Some leverageInfo,
                               recommendedAssets = recommendedAssets,
                               potentialLoss = potentialLoss,
                               potentialProfit = potentialProfit,
                               positionValue = positionValue,
                               partialTPLevels = Some partialTPLevels,
                               partialTPProfits =
                                 (if enablePartialTP s
                                  then Some (calculatePartialTPProfits s partialTPLevels
                                               recommendedAssets riskPerCoin entry)
                                  else None) \<rparr>))
                      else
                        Some (Sizing
                             \<lparr> riskPerCoin = riskPerCoin, rewardPerCoin = rewardPerCoin,
                               ratio = ratio, maxRiskAmount = Fin 0,
                               allocatedAmount = Fin 0,
                               leverageInfo = None,
                               recommendedAssets = Fin 0,
                               potentialLoss = Fin 0,
                               potentialProfit = Fin 0,
                               positionValue = Fin 0,
                               partialTPLevels = None,
                               partialTPProfits = None \<rparr>))))"

section \<open>The calculator with manual leverage\<close>

text \<open>
  The second variant of the screen (\<open>App.jsx\<close>) takes the leverage from the user and
  has no partial take-profit plan. Its state and result carry the suffix \<open>_m\<close>.
\<close>

record leverage_band =
  band_min :: jsnum
  band_max :: jsnum
  recommended :: jsnum
  level :: string

definition getLeverageRecommendation :: "jsnum \<Rightarrow> jsnum \<Rightarrow> jsnum \<Rightarrow> leverage_band" where
  "getLeverageRecommendation ratio' riskPerCoin' entry =
     (let riskPercentage = js_mul (js_div riskPerCoin' entry) (Fin 100)
      in if js_ge ratio' (Fin 3) \<and> js_le riskPercentage (Fin 2)
         then \<lparr> band_min = Fin 3, band_max = Fin 5, recommended = Fin 3,
                level = ''moderate'' \<rparr>
         else if js_ge ratio' (Fin 2) \<and> js_le riskPercentage (Fin 3)
         then \<lparr> band_min = Fin 2, band_max = Fin 3, recommended = Fin 2,
                level = ''conservative'' \<rparr>
         else if js_ge ratio' (Fin (3 / 2)) \<and> js_le riskPercentage (Fin 5)
         then \<lparr> band_min = Fin 1, band_max = Fin 2, recommended = Fin 1,
                level = ''very conservative'' \<rparr>
         else \<lparr> band_min = Fin 1, band_max = Fin 1, recommended = Fin 1,
                level = ''spot only'' \<rparr>)"

record app_state_m =
  entryPrice_m :: jsnum
  stopLoss_m :: jsnum
  takeProfit_m :: jsnum
  totalCapital_m :: jsnum
  riskPercentage_m :: jsnum
  assetAllocation_m :: jsnum
  leverage_m :: jsnum
  positionType_m :: position_type
  exchangeRate_m :: jsnum
  isLoadingRate_m :: bool

record sizing_result_m =
  riskPerCoin_m :: jsnum
  rewardPerCoin_m :: jsnum
  ratio_m :: jsnum
  maxRiskAmount_m :: jsnum
  maxPositionSize_m :: jsnum
  recommendedAssets_m :: jsnum
  potentialLoss_m :: jsnum
  potentialProfit_m :: jsnum
  allocatedAmount_m :: jsnum
  leverageRecommendation_m :: leverage_band

datatype calc_result_m = Invalid_m position_type | Sizing_m sizing_result_m

definition calculateRiskReward_m :: "app_state_m \<Rightarrow> calc_result_m option" where
  "calculateRiskReward_m s =
     (let entry = entryPrice_m s; stop = stopLoss_m s; target = takeProfit_m s;
          capital = totalCapital_m s; riskPct = riskPercentage_m s;
          allocation = assetAllocation_m s; lev = leverage_m s
      in if \<not> truthy entry \<or> \<not> truthy stop \<or> \<not> truthy target then None
         else
           (let d = directional (positionType_m s) entry stop target;
                riskPerCoin = fst d; rewardPerCoin = fst (snd d); isValid = snd (snd d)
            in  if \<not> isValid \<or> js_le riskPerCoin (Fin 0) \<or> js_le rewardPerCoin (Fin 0)
                then Some (Invalid_m (positionType_m s))
                else
                  (let ratio = js_div rewardPerCoin riskPerCoin;
                       leverageRecommendation = getLeverageRecommendation ratio riskPerCoin entry
                   in if truthy capital then
                        (let maxRiskAmount = js_div (js_mul capital riskPct) (Fin 100);
                             maxPositionSize = js_div (js_mul capital allocation) (Fin 100);
                             allocatedAmount = maxPositionSize;
                             recommendedAssets = js_div (js_mul maxPositionSize lev) entry;
                             potentialLoss = js_mul recommendedAssets riskPerCoin;
                             potentialProfit = js_mul recommendedAssets rewardPerCoin
                         in Some (Sizing_m
                             \<lparr> riskPerCoin_m = riskPerCoin, rewardPerCoin_m = rewardPerCoin,
                               ratio_m = ratio, maxRiskAmount_m = maxRiskAmount,
                               maxPositionSize_m = maxPositionSize,
                               recommendedAssets_m = recommendedAssets,
                               potentialLoss_m = potentialLoss,
                               potentialProfit_m = potentialProfit,
                               allocatedAmount_m = allocatedAmount,
                               leverageRecommendation_m = leverageRecommendation \<rparr>))
                      else
                        Some (Sizing_m
                             \<lparr> riskPerCoin_m = riskPerCoin, rewardPerCoin_m = rewardPerCoin,
                               ratio_m = ratio, maxRiskAmount_m = Fin 0,
                               maxPositionSize_m = Fin 0,
                               recommendedAssets_m = Fin 0,
                               potentialLoss_m = Fin 0,
                               potentialProfit_m = Fin 0,
                               allocatedAmount_m = Fin 0,
                               leverageRecommendation_m = leverageRecommendation \<rparr>))))"

section \<open>The currency converter\<close>

text \<open>
  \<open>fetchExchangeRate\<close> asks the sources in order. The answer of a source is given:
  \<open>Failed\<close> when the request or its decoding throws, \<open>NoRate\<close> when the answer has
  no rate for the currency, \<open>Rate x\<close> otherwise. The first rate that is truthy and
  positive is stored and ends the loop.
\<close>

datatype api_response = Failed | NoRate | Rate jsnum

fun fetch_loop :: "api_response list \<Rightarrow> app_state \<Rightarrow> app_state" where
  "fetch_loop [] s = s"
| "fetch_loop (Failed # rs) s = fetch_loop rs s"
| "fetch_loop (NoRate # rs) s = fetch_loop rs s"
| "fetch_loop (Rate x # rs) s =
     (if truthy x \<and> js_gt x (Fin 0) then s\<lparr>exchangeRate := x\<rparr> else fetch_loop rs s)"

definition fetchExchangeRate :: "api_response list \<Rightarrow> app_state \<Rightarrow> app_state" where
  "fetchExchangeRate responses s =
     (fetch_loop responses (s\<lparr>isLoadingRate := True\<rparr>))\<lparr>isLoadingRate := False\<rparr>"

section \<open>Properties\<close>

lemmas js_arith_defs = js_mul_def js_div_def js_add_def js_sub_def js_max_def js_min_def
  js_ge_def js_gt_def signed_zero_def signed_inf_def truthy_def

lemmas lev_defs = calculateOptimalLeverage_def lev_riskPercentageMove_def
  lev_optimalLeverage_def lev_clamped_def lev_ladder_def getLeverageExplanation_def

text \<open>Evaluation of concrete inputs unfolds the local bindings first.\<close>

lemmas calculatePartialTPLevels_unfold = calculatePartialTPLevels_def [unfolded Let_def]
lemmas calculatePartialTPProfits_unfold = calculatePartialTPProfits_def [unfolded Let_def]
lemmas calculateRiskReward_unfold = calculateRiskReward_def [unfolded Let_def]
lemmas lev_unfold = calculateOptimalLeverage_def [unfolded Let_def] lev_riskPercentageMove_def
  lev_optimalLeverage_def [unfolded Let_def] lev_clamped_def lev_ladder_def
  getLeverageExplanation_def

subsection \<open>Arithmetic on finite numbers\<close>

lemmas sign_rules = mult_less_0_iff zero_less_mult_iff mult_le_0_iff zero_le_mult_iff
  divide_less_0_iff zero_less_divide_iff divide_le_0_iff zero_le_divide_iff

lemma fin_add: "is_fin a \<Longrightarrow> is_fin b \<Longrightarrow> is_fin (js_add a b) \<and> rv (js_add a b) = rv a + rv b"
  by (cases a; cases b) (simp_all add: js_add_def signed_zero_def)

lemma fin_neg: "is_fin a \<Longrightarrow> is_fin (js_neg a) \<and> rv (js_neg a) = - rv a"
  by (cases a) simp_all

lemma fin_sub: "is_fin a \<Longrightarrow> is_fin b \<Longrightarrow> is_fin (js_sub a b) \<and> rv (js_sub a b) = rv a - rv b"
  by (simp add: js_sub_def fin_add fin_neg)

lemma fin_mul: "is_fin a \<Longrightarrow> is_fin b \<Longrightarrow> is_fin (js_mul a b) \<and> rv (js_mul a b) = rv a * rv b"
  by (cases a; cases b) (simp_all add: js_mul_def signed_zero_def)

lemma fin_div:
  "is_fin a \<Longrightarrow> is_fin b \<Longrightarrow> rv b \<noteq> 0 \<Longrightarrow> is_fin (js_div a b) \<and> rv (js_div a b) = rv a / rv b"
  by (cases a; cases b) (simp_all add: js_div_def signed_zero_def)

lemma fin_abs: "is_fin a \<Longrightarrow> is_fin (js_abs a) \<and> rv (js_abs a) = \<bar>rv a\<bar>"
  by (cases a) simp_all

lemma fin_nonzero: "is_fin a \<Longrightarrow> rv a \<noteq> 0 \<Longrightarrow> a = Fin (rv a)"
  by (cases a) simp_all

lemma fin_lt: "is_fin a \<Longrightarrow> is_fin b \<Longrightarrow> js_lt a b = (rv a < rv b)"
  by (cases a; cases b) simp_all

lemma fin_le: "is_fin a \<Longrightarrow> is_fin b \<Longrightarrow> js_le a b = (rv a \<le> rv b)"
  by (cases a; cases b) simp_all

lemma fin_abs_iff: "is_fin (js_abs a) = is_fin a"
  by (cases a) simp_all

lemma fin_sub_iff: "is_fin (js_sub a b) = (is_fin a \<and> is_fin b)"
  by (cases a; cases b) (simp_all add: js_sub_def js_add_def signed_zero_def)

lemma div_eq_Fin:
  assumes "js_div a b = Fin q" "q \<noteq> 0"
  shows "is_fin a \<and> is_fin b \<and> rv b \<noteq> 0 \<and> rv a = q * rv b"
  using assms
  by (cases a; cases b)
     (auto simp: js_div_def signed_zero_def signed_inf_def field_simps split: if_splits)

lemma lt_sub_pos: "js_lt a b \<Longrightarrow> \<not> js_le (js_sub b a) (Fin 0)"
  by (cases a; cases b) (simp_all add: js_sub_def js_add_def signed_zero_def)


lemma lt_extreme [simp]: "\<not> js_lt PInf c" "\<not> js_lt c NInf" "\<not> js_lt c NaN"
  by (cases c; simp)+

lemma le_extreme [simp]: "\<not> js_le c NaN" "js_le c PInf = (c \<noteq> NaN)" "js_le NInf c = (c \<noteq> NaN)"
  by (cases c; simp)+

subsection \<open>The exchange rate\<close>

lemma calc_rate_irrelevant:
  "calculateRiskReward (s\<lparr>exchangeRate := r\<rparr>) = calculateRiskReward s"
  by (simp add: calculateRiskReward_def calculatePartialTPProfits_def Let_def)

lemma calc_loading_irrelevant:
  "calculateRiskReward (s\<lparr>isLoadingRate := b\<rparr>) = calculateRiskReward s"
  by (simp add: calculateRiskReward_def calculatePartialTPProfits_def Let_def)

lemma fetch_loop_calc:
  "calculateRiskReward (fetch_loop rs s) = calculateRiskReward s"
  by (induction rs s rule: fetch_loop.induct) (simp_all add: calc_rate_irrelevant)

text \<open>
  C9. The exchange rate has no effect on the evaluation: two states that differ in the
  exchange rate only give the same result in every field, and a rate fetch, whatever
  the sources answer, leaves the result of the evaluation unchanged.
\<close>

theorem exchange_rate_no_effect:
  "calculateRiskReward (s\<lparr>exchangeRate := r1\<rparr>) = calculateRiskReward (s\<lparr>exchangeRate := r2\<rparr>)
   \<and> calculateRiskReward (fetchExchangeRate responses s) = calculateRiskReward s"
  by (simp add: fetchExchangeRate_def calc_rate_irrelevant calc_loading_irrelevant
      fetch_loop_calc)

theorem exchange_rate_no_effect_witness:
  "calculateRiskReward
     (\<lparr> entryPrice = Fin 100, stopLoss = Fin 95, takeProfit = Fin 115,
          totalCapital = Fin 10000, riskPercentage = Fin 1, assetAllocation = Fin 10,
          maxLeverage = Fin 75, positionType = Long, exchangeRate = Fin (1463 / 25),
          isLoadingRate = False, enablePartialTP = True,
          partialTP1Percent = Fin 50, partialTP2Percent = Fin 30 \<rparr>\<lparr>exchangeRate := Fin 56\<rparr>)
   = calculateRiskReward
     (\<lparr> entryPrice = Fin 100, stopLoss = Fin 95, takeProfit = Fin 115,
          totalCapital = Fin 10000, riskPercentage = Fin 1, assetAllocation = Fin 10,
          maxLeverage = Fin 75, positionType = Long, exchangeRate = Fin (1463 / 25),
          isLoadingRate = False, enablePartialTP = True,
          partialTP1Percent = Fin 50, partialTP2Percent = Fin 30 \<rparr>\<lparr>exchangeRate := Fin 60\<rparr>)
   \<and> calculateRiskReward (fetchExchangeRate [Failed, NoRate, Rate (Fin 57), Rate (Fin 59)]
        \<lparr> entryPrice = Fin 100, stopLoss = Fin 95, takeProfit = Fin 115,
          totalCapital = Fin 10000, riskPercentage = Fin 1, assetAllocation = Fin 10,
          maxLeverage = Fin 75, positionType = Long, exchangeRate = Fin (1463 / 25),
          isLoadingRate = False, enablePartialTP = True,
          partialTP1Percent = Fin 50, partialTP2Percent = Fin 30 \<rparr>)
     = calculateRiskReward
        \<lparr> entryPrice = Fin 100, stopLoss = Fin 95, takeProfit = Fin 115,
          totalCapital = Fin 10000, riskPercentage = Fin 1, assetAllocation = Fin 10,
          maxLeverage = Fin 75, positionType = Long, exchangeRate = Fin (1463 / 25),
          isLoadingRate = False, enablePartialTP = True,
          partialTP1Percent = Fin 50, partialTP2Percent = Fin 30 \<rparr>"
  using exchange_rate_no_effect
    [where s = "\<lparr> entryPrice = Fin 100, stopLoss = Fin 95, takeProfit = Fin 115,
          totalCapital = Fin 10000, riskPercentage = Fin 1, assetAllocation = Fin 10,
          maxLeverage = Fin 75, positionType = Long, exchangeRate = Fin (1463 / 25),
          isLoadingRate = False, enablePartialTP = True,
          partialTP1Percent = Fin 50, partialTP2Percent = Fin 30 \<rparr>"
       and ?r1.0 = "Fin 56" and ?r2.0 = "Fin 60"
       and responses = "[Failed, NoRate, Rate (Fin 57), Rate (Fin 59)]"]
  by simp

subsection \<open>The concrete scenario\<close>

text \<open>
  C3. A long position with entry 100, stop 95, target 115, capital 10000, risk 1 percent,
  allocation 10 percent and maximal leverage 75 evaluates to risk per unit 5, reward per
  unit 15, ratio 3, a stop distance of 5 percent, recommended leverage 2, position value
  2000, 20 units, potential loss 100 and potential profit 300, whatever the other fields
  of the state are.
\<close>

theorem concrete_long_scenario:
  "\<exists>r li. calculateRiskReward
      (s\<lparr> entryPrice := Fin 100, stopLoss := Fin 95, takeProfit := Fin 115,
          totalCapital := Fin 10000, riskPercentage := Fin 1, assetAllocation := Fin 10,
          maxLeverage := Fin 75, positionType := Long \<rparr>) = Some (Sizing r)
     \<and> riskPerCoin r = Fin 5 \<and> rewardPerCoin r = Fin 15 \<and> ratio r = Fin 3
     \<and> leverageInfo r = Some li \<and> riskPercentageMove li = Fin 5 \<and> optimal li = Fin 2
     \<and> positionValue r = Fin 2000 \<and> recommendedAssets r = Fin 20
     \<and> potentialLoss r = Fin 100 \<and> potentialProfit r = Fin 300"
  by (simp add: calculateRiskReward_def directional_def lev_defs js_arith_defs Let_def)

theorem concrete_long_scenario_witness:
  "\<exists>r li. calculateRiskReward
        \<lparr> entryPrice = Fin 100, stopLoss = Fin 95, takeProfit = Fin 115,
          totalCapital = Fin 10000, riskPercentage = Fin 1, assetAllocation = Fin 10,
          maxLeverage = Fin 75, positionType = Long, exchangeRate = Fin (1463 / 25),
          isLoadingRate = False, enablePartialTP = True,
          partialTP1Percent = Fin 50, partialTP2Percent = Fin 30 \<rparr> = Some (Sizing r)
     \<and> riskPerCoin r = Fin 5 \<and> rewardPerCoin r = Fin 15 \<and> ratio r = Fin 3
     \<and> leverageInfo r = Some li \<and> riskPercentageMove li = Fin 5 \<and> optimal li = Fin 2
     \<and> positionValue r = Fin 2000 \<and> recommendedAssets r = Fin 20
     \<and> potentialLoss r = Fin 100 \<and> potentialProfit r = Fin 300"
  using concrete_long_scenario
    [of "\<lparr> entryPrice = Fin 100, stopLoss = Fin 95, takeProfit = Fin 115,
          totalCapital = Fin 10000, riskPercentage = Fin 1, assetAllocation = Fin 10,
          maxLeverage = Fin 75, positionType = Long, exchangeRate = Fin (1463 / 25),
          isLoadingRate = False, enablePartialTP = True,
          partialTP1Percent = Fin 50, partialTP2Percent = Fin 30 \<rparr>"]
  by simp

subsection \<open>The directional check\<close>

lemma directional_ok:
  "(snd (snd (directional pt e st t))
     \<and> \<not> js_le (fst (directional pt e st t)) (Fin 0)
     \<and> \<not> js_le (fst (snd (directional pt e st t))) (Fin 0))
   = (if pt = Long then js_lt st e \<and> js_lt e t else js_lt t e \<and> js_lt e st)"
  by (auto simp: directional_def js_gt_def lt_sub_pos)

lemma calc_Invalid_iff:
  assumes "truthy (entryPrice s)" "truthy (stopLoss s)" "truthy (takeProfit s)"
  shows "calculateRiskReward s = Some (Invalid p)
   \<longleftrightarrow> p = positionType s \<and>
       \<not> (if positionType s = Long
          then js_lt (stopLoss s) (entryPrice s) \<and> js_lt (entryPrice s) (takeProfit s)
          else js_lt (takeProfit s) (entryPrice s) \<and> js_lt (entryPrice s) (stopLoss s))"
  using assms directional_ok [of "positionType s" "entryPrice s" "stopLoss s" "takeProfit s"]
  by (auto simp: calculateRiskReward_def Let_def)

lemma calc_Sizing_iff:
  assumes "truthy (entryPrice s)" "truthy (stopLoss s)" "truthy (takeProfit s)"
  shows "(\<exists>r. calculateRiskReward s = Some (Sizing r))
   \<longleftrightarrow> (if positionType s = Long
          then js_lt (stopLoss s) (entryPrice s) \<and> js_lt (entryPrice s) (takeProfit s)
          else js_lt (takeProfit s) (entryPrice s) \<and> js_lt (entryPrice s) (stopLoss s))"
  using assms directional_ok [of "positionType s" "entryPrice s" "stopLoss s" "takeProfit s"]
  by (auto simp: calculateRiskReward_def Let_def)

lemma calc_m_Invalid_iff:
  assumes "truthy (entryPrice_m s)" "truthy (stopLoss_m s)" "truthy (takeProfit_m s)"
  shows "calculateRiskReward_m s = Some (Invalid_m p)
   \<longleftrightarrow> p = positionType_m s \<and>
       \<not> (if positionType_m s = Long
          then js_lt (stopLoss_m s) (entryPrice_m s) \<and> js_lt (entryPrice_m s) (takeProfit_m s)
          else js_lt (takeProfit_m s) (entryPrice_m s) \<and> js_lt (entryPrice_m s) (stopLoss_m s))"
  using assms
    directional_ok [of "positionType_m s" "entryPrice_m s" "stopLoss_m s" "takeProfit_m s"]
  by (auto simp: calculateRiskReward_m_def Let_def)

lemma calc_m_Sizing_iff:
  assumes "truthy (entryPrice_m s)" "truthy (stopLoss_m s)" "truthy (takeProfit_m s)"
  shows "(\<exists>r. calculateRiskReward_m s = Some (Sizing_m r))
   \<longleftrightarrow> (if positionType_m s = Long
          then js_lt (stopLoss_m s) (entryPrice_m s) \<and> js_lt (entryPrice_m s) (takeProfit_m s)
          else js_lt (takeProfit_m s) (entryPrice_m s) \<and> js_lt (entryPrice_m s) (stopLoss_m s))"
  using assms
    directional_ok [of "positionType_m s" "entryPrice_m s" "stopLoss_m s" "takeProfit_m s"]
  by (auto simp: calculateRiskReward_m_def Let_def)

text \<open>
  C1. When entry, stop and target are all nonzero numbers, the evaluation returns the
  error result carrying the position type exactly when the directional ordering fails,
  and a report exactly when it holds: for a long position the ordering is
  stop < entry < target, for a short position target < entry < stop. Equal prices fail
  the ordering. This holds in both variants of the screen.
\<close>

theorem invalid_direction_iff:
  assumes "truthy (entryPrice s)" "truthy (stopLoss s)" "truthy (takeProfit s)"
    and "truthy (entryPrice_m t)" "truthy (stopLoss_m t)" "truthy (takeProfit_m t)"
  shows
    "(calculateRiskReward s = Some (Invalid (positionType s)))
       = (\<not> (if positionType s = Long
              then js_lt (stopLoss s) (entryPrice s) \<and> js_lt (entryPrice s) (takeProfit s)
              else js_lt (takeProfit s) (entryPrice s) \<and> js_lt (entryPrice s) (stopLoss s)))
     \<and> (\<exists>r. calculateRiskReward s = Some (Sizing r))
       = (if positionType s = Long
          then js_lt (stopLoss s) (entryPrice s) \<and> js_lt (entryPrice s) (takeProfit s)
          else js_lt (takeProfit s) (entryPrice s) \<and> js_lt (entryPrice s) (stopLoss s))
     \<and> (calculateRiskReward_m t = Some (Invalid_m (positionType_m t)))
       = (\<not> (if positionType_m t = Long
              then js_lt (stopLoss_m t) (entryPrice_m t) \<and> js_lt (entryPrice_m t) (takeProfit_m t)
              else js_lt (takeProfit_m t) (entryPrice_m t) \<and> js_lt (entryPrice_m t) (stopLoss_m t)))
     \<and> (\<exists>r. calculateRiskReward_m t = Some (Sizing_m r))
       = (if positionType_m t = Long
          then js_lt (stopLoss_m t) (entryPrice_m t) \<and> js_lt (entryPrice_m t) (takeProfit_m t)
          else js_lt (takeProfit_m t) (entryPrice_m t) \<and> js_lt (entryPrice_m t) (stopLoss_m t))"
  using calc_Invalid_iff [OF assms(1-3), of "positionType s"] calc_Sizing_iff [OF assms(1-3)]
    calc_m_Invalid_iff [OF assms(4-6), of "positionType_m t"] calc_m_Sizing_iff [OF assms(4-6)]
  by (simp only: simp_thms)

theorem invalid_direction_iff_witness:
  "truthy (Fin 100) \<and> truthy (Fin 90) \<and> truthy (Fin 120)
   \<and> calculateRiskReward
        \<lparr> entryPrice = Fin 100, stopLoss = Fin 90, takeProfit = Fin 120,
          totalCapital = Fin 10000, riskPercentage = Fin 1, assetAllocation = Fin 10,
          maxLeverage = Fin 75, positionType = Short, exchangeRate = Fin (1463 / 25),
          isLoadingRate = False, enablePartialTP = True,
          partialTP1Percent = Fin 50, partialTP2Percent = Fin 30 \<rparr> = Some (Invalid Short)
   \<and> (\<exists>r. calculateRiskReward_m
        \<lparr> entryPrice_m = Fin 100, stopLoss_m = Fin 90, takeProfit_m = Fin 120,
          totalCapital_m = Fin 10000, riskPercentage_m = Fin 1, assetAllocation_m = Fin 10,
          leverage_m = Fin 1, positionType_m = Long, exchangeRate_m = Fin (1463 / 25),
          isLoadingRate_m = False \<rparr> = Some (Sizing_m r))"
  using invalid_direction_iff
    [of "\<lparr> entryPrice = Fin 100, stopLoss = Fin 90, takeProfit = Fin 120,
          totalCapital = Fin 10000, riskPercentage = Fin 1, assetAllocation = Fin 10,
          maxLeverage = Fin 75, positionType = Short, exchangeRate = Fin (1463 / 25),
          isLoadingRate = False, enablePartialTP = True,
          partialTP1Percent = Fin 50, partialTP2Percent = Fin 30 \<rparr>"
        "\<lparr> entryPrice_m = Fin 100, stopLoss_m = Fin 90, takeProfit_m = Fin 120,
          totalCapital_m = Fin 10000, riskPercentage_m = Fin 1, assetAllocation_m = Fin 10,
          leverage_m = Fin 1, positionType_m = Long, exchangeRate_m = Fin (1463 / 25),
          isLoadingRate_m = False \<rparr>"]
  by (simp add: truthy_def)

subsection \<open>Scaling the prices\<close>

lemma scale_truthy: "0 < c \<Longrightarrow> truthy (js_mul (Fin c) a) = truthy a"
  by (cases a) (auto simp: js_arith_defs)

lemma scale_lt: "0 < c \<Longrightarrow> js_lt (js_mul (Fin c) a) (js_mul (Fin c) b) = js_lt a b"
  by (cases a; cases b) (auto simp: js_arith_defs sign_rules)

lemma scale_le0: "0 < c \<Longrightarrow> js_le (js_mul (Fin c) a) (Fin 0) = js_le a (Fin 0)"
  by (cases a) (auto simp: js_arith_defs sign_rules)

lemma scale_sub:
  "0 < c \<Longrightarrow> js_sub (js_mul (Fin c) a) (js_mul (Fin c) b) = js_mul (Fin c) (js_sub a b)"
  by (cases a; cases b) (auto simp: js_arith_defs right_diff_distrib sign_rules)

lemma scale_div: "0 < c \<Longrightarrow> js_div (js_mul (Fin c) a) (js_mul (Fin c) b) = js_div a b"
  by (cases a; cases b) (auto simp: js_arith_defs sign_rules)

lemma scale_directional:
  assumes "0 < c"
  shows "directional pt (js_mul (Fin c) e) (js_mul (Fin c) st) (js_mul (Fin c) t)
       = (js_mul (Fin c) (fst (directional pt e st t)),
          js_mul (Fin c) (fst (snd (directional pt e st t))),
          snd (snd (directional pt e st t)))"
  using assms by (simp add: directional_def scale_sub scale_lt js_gt_def)

text \<open>The ratio of a report is the quotient of the two distances, in both variants.\<close>

lemma calc_Sizing_ratio:
  "calculateRiskReward s = Some (Sizing r) \<Longrightarrow>
   truthy (entryPrice s) \<and> truthy (stopLoss s) \<and> truthy (takeProfit s)
   \<and> snd (snd (directional (positionType s) (entryPrice s) (stopLoss s) (takeProfit s)))
   \<and> \<not> js_le (fst (directional (positionType s) (entryPrice s) (stopLoss s) (takeProfit s))) (Fin 0)
   \<and> \<not> js_le (fst (snd (directional (positionType s) (entryPrice s) (stopLoss s) (takeProfit s)))) (Fin 0)
   \<and> ratio r = js_div (fst (snd (directional (positionType s) (entryPrice s) (stopLoss s) (takeProfit s))))
                       (fst (directional (positionType s) (entryPrice s) (stopLoss s) (takeProfit s)))"
  by (auto simp: calculateRiskReward_def Let_def split: if_splits)

lemma calc_Sizing_intro:
  assumes "truthy (entryPrice s)" "truthy (stopLoss s)" "truthy (takeProfit s)"
    and "snd (snd (directional (positionType s) (entryPrice s) (stopLoss s) (takeProfit s)))"
    and "\<not> js_le (fst (directional (positionType s) (entryPrice s) (stopLoss s) (takeProfit s))) (Fin 0)"
    and "\<not> js_le (fst (snd (directional (positionType s) (entryPrice s) (stopLoss s) (takeProfit s)))) (Fin 0)"
  shows "\<exists>r. calculateRiskReward s = Some (Sizing r) \<and>
     ratio r = js_div (fst (snd (directional (positionType s) (entryPrice s) (stopLoss s) (takeProfit s))))
                       (fst (directional (positionType s) (entryPrice s) (stopLoss s) (takeProfit s)))"
  using assms by (auto simp: calculateRiskReward_def Let_def)

lemma calc_m_Sizing_ratio:
  "calculateRiskReward_m s = Some (Sizing_m r) \<Longrightarrow>
   truthy (entryPrice_m s) \<and> truthy (stopLoss_m s) \<and> truthy (takeProfit_m s)
   \<and> snd (snd (directional (positionType_m s) (entryPrice_m s) (stopLoss_m s) (takeProfit_m s)))
   \<and> \<not> js_le (fst (directional (positionType_m s) (entryPrice_m s) (stopLoss_m s) (takeProfit_m s))) (Fin 0)
   \<and> \<not> js_le (fst (snd (directional (positionType_m s) (entryPrice_m s) (stopLoss_m s) (takeProfit_m s)))) (Fin 0)
   \<and> ratio_m r = js_div (fst (snd (directional (positionType_m s) (entryPrice_m s) (stopLoss_m s) (takeProfit_m s))))
                       (fst (directional (positionType_m s) (entryPrice_m s) (stopLoss_m s) (takeProfit_m s)))"
  by (auto simp: calculateRiskReward_m_def Let_def split: if_splits)

lemma calc_m_Sizing_intro:
  assumes "truthy (entryPrice_m s)" "truthy (stopLoss_m s)" "truthy (takeProfit_m s)"
    and "snd (snd (directional (positionType_m s) (entryPrice_m s) (stopLoss_m s) (takeProfit_m s)))"
    and "\<not> js_le (fst (directional (positionType_m s) (entryPrice_m s) (stopLoss_m s) (takeProfit_m s))) (Fin 0)"
    and "\<not> js_le (fst (snd (directional (positionType_m s) (entryPrice_m s) (stopLoss_m s) (takeProfit_m s)))) (Fin 0)"
  shows "\<exists>r. calculateRiskReward_m s = Some (Sizing_m r) \<and>
     ratio_m r = js_div (fst (snd (directional (positionType_m s) (entryPrice_m s) (stopLoss_m s) (takeProfit_m s))))
                       (fst (directional (positionType_m s) (entryPrice_m s) (stopLoss_m s) (takeProfit_m s)))"
  using assms by (auto simp: calculateRiskReward_m_def Let_def)

lemma ratio_scale:
  assumes c: "0 < c" and r: "calculateRiskReward s = Some (Sizing r)"
  shows "\<exists>r'. calculateRiskReward
            (s\<lparr> entryPrice := js_mul (Fin c) (entryPrice s),
                stopLoss := js_mul (Fin c) (stopLoss s),
                takeProfit := js_mul (Fin c) (takeProfit s) \<rparr>) = Some (Sizing r')
          \<and> ratio r' = ratio r"
proof -
  let ?s' = "s\<lparr> entryPrice := js_mul (Fin c) (entryPrice s),
                stopLoss := js_mul (Fin c) (stopLoss s),
                takeProfit := js_mul (Fin c) (takeProfit s) \<rparr>"
  let ?d = "directional (positionType s) (entryPrice s) (stopLoss s) (takeProfit s)"
  note f = calc_Sizing_ratio [OF r]
  have d': "directional (positionType ?s') (entryPrice ?s') (stopLoss ?s') (takeProfit ?s')
      = (js_mul (Fin c) (fst ?d), js_mul (Fin c) (fst (snd ?d)), snd (snd ?d))"
    using scale_directional [OF c] by simp
  have "\<exists>r'. calculateRiskReward ?s' = Some (Sizing r') \<and>
     ratio r' = js_div (fst (snd (directional (positionType ?s') (entryPrice ?s') (stopLoss ?s') (takeProfit ?s'))))
                       (fst (directional (positionType ?s') (entryPrice ?s') (stopLoss ?s') (takeProfit ?s')))"
    by (rule calc_Sizing_intro)
       (use f c in \<open>simp_all only: d' fst_conv snd_conv scale_le0\<close>, simp_all add: scale_truthy)
  then show ?thesis
    using f c by (simp only: d' fst_conv snd_conv scale_div)
qed

lemma ratio_scale_m:
  assumes c: "0 < c" and r: "calculateRiskReward_m s = Some (Sizing_m r)"
  shows "\<exists>r'. calculateRiskReward_m
            (s\<lparr> entryPrice_m := js_mul (Fin c) (entryPrice_m s),
                stopLoss_m := js_mul (Fin c) (stopLoss_m s),
                takeProfit_m := js_mul (Fin c) (takeProfit_m s) \<rparr>) = Some (Sizing_m r')
          \<and> ratio_m r' = ratio_m r"
proof -
  let ?s' = "s\<lparr> entryPrice_m := js_mul (Fin c) (entryPrice_m s),
                stopLoss_m := js_mul (Fin c) (stopLoss_m s),
                takeProfit_m := js_mul (Fin c) (takeProfit_m s) \<rparr>"
  let ?d = "directional (positionType_m s) (entryPrice_m s) (stopLoss_m s) (takeProfit_m s)"
  note f = calc_m_Sizing_ratio [OF r]
  have d': "directional (positionType_m ?s') (entryPrice_m ?s') (stopLoss_m ?s') (takeProfit_m ?s')
      = (js_mul (Fin c) (fst ?d), js_mul (Fin c) (fst (snd ?d)), snd (snd ?d))"
    using scale_directional [OF c] by simp
  have "\<exists>r'. calculateRiskReward_m ?s' = Some (Sizing_m r') \<and>
     ratio_m r' = js_div (fst (snd (directional (positionType_m ?s') (entryPrice_m ?s') (stopLoss_m ?s') (takeProfit_m ?s'))))
                       (fst (directional (positionType_m ?s') (entryPrice_m ?s') (stopLoss_m ?s') (takeProfit_m ?s')))"
    by (rule calc_m_Sizing_intro)
       (use f c in \<open>simp_all only: d' fst_conv snd_conv scale_le0\<close>, simp_all add: scale_truthy)
  then show ?thesis
    using f c by (simp only: d' fst_conv snd_conv scale_div)
qed

text \<open>
  C5. The ratio is scale-invariant: when a trade evaluates to a report, the trade with
  entry, stop and target multiplied by a positive constant evaluates to a report with
  the same ratio, in both variants of the screen.
\<close>

theorem ratio_scale_invariant:
  assumes "0 < c"
    and "calculateRiskReward s = Some (Sizing r)"
    and "calculateRiskReward_m t = Some (Sizing_m q)"
  shows "(\<exists>r'. calculateRiskReward
            (s\<lparr> entryPrice := js_mul (Fin c) (entryPrice s),
                stopLoss := js_mul (Fin c) (stopLoss s),
                takeProfit := js_mul (Fin c) (takeProfit s) \<rparr>) = Some (Sizing r')
          \<and> ratio r' = ratio r)
       \<and> (\<exists>q'. calculateRiskReward_m
            (t\<lparr> entryPrice_m := js_mul (Fin c) (entryPrice_m t),
                stopLoss_m := js_mul (Fin c) (stopLoss_m t),
                takeProfit_m := js_mul (Fin c) (takeProfit_m t) \<rparr>) = Some (Sizing_m q')
          \<and> ratio_m q' = ratio_m q)"
  using ratio_scale [OF assms(1,2)] ratio_scale_m [OF assms(1,3)] by (rule conjI)

theorem ratio_scale_invariant_witness:
  "(0::real) < 1 / 10
   \<and> (\<exists>r'. calculateRiskReward (\<lparr> entryPrice = Fin 100, stopLoss = Fin 95, takeProfit = Fin 115,
          totalCapital = Fin 10000, riskPercentage = Fin 1, assetAllocation = Fin 10,
          maxLeverage = Fin 75, positionType = Long, exchangeRate = Fin (1463 / 25),
          isLoadingRate = False, enablePartialTP = True,
          partialTP1Percent = Fin 50, partialTP2Percent = Fin 30 \<rparr>\<lparr> entryPrice := Fin 10, stopLoss := Fin (19 / 2),
              takeProfit := Fin (23 / 2) \<rparr>) = Some (Sizing r') \<and> ratio r' = Fin 3)
   \<and> (\<exists>q'. calculateRiskReward_m (\<lparr> entryPrice_m = Fin 100, stopLoss_m = Fin 95, takeProfit_m = Fin 115,
          totalCapital_m = Fin 10000, riskPercentage_m = Fin 1, assetAllocation_m = Fin 10,
          leverage_m = Fin 1, positionType_m = Long, exchangeRate_m = Fin (1463 / 25),
          isLoadingRate_m = False \<rparr>\<lparr> entryPrice_m := Fin 10, stopLoss_m := Fin (19 / 2),
              takeProfit_m := Fin (23 / 2) \<rparr>) = Some (Sizing_m q') \<and> ratio_m q' = Fin 3)"
proof -
  let ?s = "\<lparr> entryPrice = Fin 100, stopLoss = Fin 95, takeProfit = Fin 115,
          totalCapital = Fin 10000, riskPercentage = Fin 1, assetAllocation = Fin 10,
          maxLeverage = Fin 75, positionType = Long, exchangeRate = Fin (1463 / 25),
          isLoadingRate = False, enablePartialTP = True,
          partialTP1Percent = Fin 50, partialTP2Percent = Fin 30 \<rparr>"
  let ?t = "\<lparr> entryPrice_m = Fin 100, stopLoss_m = Fin 95, takeProfit_m = Fin 115,
          totalCapital_m = Fin 10000, riskPercentage_m = Fin 1, assetAllocation_m = Fin 10,
          leverage_m = Fin 1, positionType_m = Long, exchangeRate_m = Fin (1463 / 25),
          isLoadingRate_m = False \<rparr>"
  obtain r where r: "calculateRiskReward ?s = Some (Sizing r)" "ratio r = Fin 3"
    by (simp add: calculateRiskReward_def directional_def js_arith_defs Let_def)
  obtain q where q: "calculateRiskReward_m ?t = Some (Sizing_m q)" "ratio_m q = Fin 3"
    by (simp add: calculateRiskReward_m_def directional_def js_arith_defs Let_def)
  have c: "(0::real) < 1 / 10" by simp
  from ratio_scale_invariant [OF c r(1) q(1)] show ?thesis
    by (simp add: r(2) q(2) js_mul_def)
qed

subsection \<open>The levels of the partial take-profit plan\<close>

lemma tp2_ratio_two_placement:
  assumes rr: "js_div (js_abs (js_sub target entry)) (js_abs (js_sub entry stop)) = Fin 2"
  shows "price (tp2 (calculatePartialTPLevels entry stop target pt))
           = (if pt = Long then js_add entry (js_mul (js_abs (js_sub entry stop)) (Fin (3 / 2)))
              else js_sub entry (js_mul (js_abs (js_sub entry stop)) (Fin (3 / 2))))
       \<and> rMultiple (tp2 (calculatePartialTPLevels entry stop target pt)) = Fin (3 / 2)
       \<and> price (tp2 (calculatePartialTPLevels entry stop target pt))
           \<noteq> (if pt = Long then js_add entry (js_mul (js_abs (js_sub entry stop)) (Fin 2))
              else js_sub entry (js_mul (js_abs (js_sub entry stop)) (Fin 2)))"
proof -
  let ?risk = "js_abs (js_sub entry stop)"
  let ?half = "js_mul ?risk (Fin (3 / 2))"
  let ?two = "js_mul ?risk (Fin 2)"
  let ?p = "if pt = Long then js_add entry ?half else js_sub entry ?half"
  let ?q = "if pt = Long then js_add entry ?two else js_sub entry ?two"
  from div_eq_Fin [OF rr] have fr: "is_fin ?risk" and nz: "rv ?risk \<noteq> 0"
    by simp_all
  then have fe: "is_fin entry" by (simp add: fin_abs_iff fin_sub_iff)
  have price: "price (tp2 (calculatePartialTPLevels entry stop target pt)) = ?p"
    by (simp add: calculatePartialTPLevels_def Let_def rr js_ge_def)
  have fh: "is_fin ?half" "rv ?half = rv ?risk * (3 / 2)"
    using fin_mul [OF fr, of "Fin (3 / 2)"] by simp_all
  have ft: "is_fin ?two" "rv ?two = rv ?risk * 2"
    using fin_mul [OF fr, of "Fin 2"] by simp_all
  have fp: "is_fin ?p" "rv ?p = (if pt = Long then rv entry + rv ?half else rv entry - rv ?half)"
    using fin_add [OF fe fh(1)] fin_sub [OF fe fh(1)] by simp_all
  have fq: "is_fin ?q" "rv ?q = (if pt = Long then rv entry + rv ?two else rv entry - rv ?two)"
    using fin_add [OF fe ft(1)] fin_sub [OF fe ft(1)] by simp_all
  have nrv: "rv ?p \<noteq> rv ?q"
    using nz by (simp add: fp(2) fq(2) fh(2) ft(2))
  have ne: "?p \<noteq> ?q"
  proof
    assume "?p = ?q"
    then have "rv ?p = rv ?q" by (rule arg_cong)
    with nrv show False by (rule notE)
  qed
  have d: "is_fin (js_abs (js_sub ?p entry))" "rv (js_abs (js_sub ?p entry)) = \<bar>rv ?risk\<bar> * (3 / 2)"
    using fin_sub [OF fp(1) fe] fin_abs [of "js_sub ?p entry"]
    by (simp_all add: fp(2) fh(2) abs_mult)
  have pos: "0 \<le> rv ?risk"
    using fin_abs [of "js_sub entry stop"] fr by (simp add: fin_abs_iff)
  have m: "is_fin (js_div (js_abs (js_sub ?p entry)) ?risk)"
      "rv (js_div (js_abs (js_sub ?p entry)) ?risk) = 3 / 2"
    using fin_div [OF d(1) fr nz] nz pos by (simp_all add: d(2))
  have "js_div (js_abs (js_sub ?p entry)) ?risk = Fin (3 / 2)"
    using fin_nonzero [OF m(1)] by (simp add: m(2))
  then have rm: "rMultiple (tp2 (calculatePartialTPLevels entry stop target pt)) = Fin (3 / 2)"
    using price by (simp add: calculatePartialTPLevels_def Let_def)
  show ?thesis
    using price rm ne by simp
qed


lemma tp2_two_risk_only_from_three:
  assumes fe: "is_fin entry" and fs: "is_fin stop" and ft: "is_fin target"
    and ne: "rv entry \<noteq> rv stop"
    and p: "price (tp2 (calculatePartialTPLevels entry stop target pt))
           = (if pt = Long then js_add entry (js_mul (js_abs (js_sub entry stop)) (Fin 2))
              else js_sub entry (js_mul (js_abs (js_sub entry stop)) (Fin 2)))"
  shows "js_ge (js_div (js_abs (js_sub target entry)) (js_abs (js_sub entry stop))) (Fin 3)"
proof (rule ccontr)
  let ?risk = "js_abs (js_sub entry stop)"
  let ?rew = "js_abs (js_sub target entry)"
  let ?rr = "js_div ?rew ?risk"
  let ?tp1 = "if pt = Long then js_add entry ?risk else js_sub entry ?risk"
  let ?q = "if pt = Long then js_add entry (js_mul ?risk (Fin 2))
            else js_sub entry (js_mul ?risk (Fin 2))"
  let ?h = "if pt = Long then js_add entry (js_mul ?risk (Fin (3 / 2)))
            else js_sub entry (js_mul ?risk (Fin (3 / 2)))"
  let ?m = "js_div (js_add ?tp1 target) (Fin 2)"
  assume n3: "\<not> js_ge ?rr (Fin 3)"
  have risk: "is_fin ?risk" "rv ?risk = \<bar>rv entry - rv stop\<bar>"
    using fin_sub [OF fe fs] fin_abs [of "js_sub entry stop"] by simp_all
  have k: "0 < rv ?risk" using ne by (simp add: risk(2))
  have rew: "is_fin ?rew" "rv ?rew = \<bar>rv target - rv entry\<bar>"
    using fin_sub [OF ft fe] fin_abs [of "js_sub target entry"] by simp_all
  have rr: "is_fin ?rr" "rv ?rr = rv ?rew / rv ?risk"
    using fin_div [OF rew(1) risk(1)] k by simp_all
  have lt3: "rv ?rew < 3 * rv ?risk"
    using n3 fin_le [of "Fin 3" ?rr] rr k by (simp add: js_ge_def field_simps)
  have two: "is_fin (js_mul ?risk (Fin 2))" "rv (js_mul ?risk (Fin 2)) = rv ?risk * 2"
    using fin_mul [OF risk(1), of "Fin 2"] by simp_all
  have half: "is_fin (js_mul ?risk (Fin (3 / 2)))"
      "rv (js_mul ?risk (Fin (3 / 2))) = rv ?risk * (3 / 2)"
    using fin_mul [OF risk(1), of "Fin (3 / 2)"] by simp_all
  have q: "rv ?q = (if pt = Long then rv entry + rv ?risk * 2 else rv entry - rv ?risk * 2)"
    using fin_add [OF fe two(1)] fin_sub [OF fe two(1)] by (simp add: two(2))
  have h: "rv ?h = (if pt = Long then rv entry + rv ?risk * (3 / 2)
                    else rv entry - rv ?risk * (3 / 2))"
    using fin_add [OF fe half(1)] fin_sub [OF fe half(1)] by (simp add: half(2))
  have tp1: "is_fin ?tp1" "rv ?tp1 = (if pt = Long then rv entry + rv ?risk else rv entry - rv ?risk)"
    using fin_add [OF fe risk(1)] fin_sub [OF fe risk(1)] by simp_all
  have s: "is_fin (js_add ?tp1 target)" "rv (js_add ?tp1 target) = rv ?tp1 + rv target"
    using fin_add [OF tp1(1) ft] by simp_all
  have m: "rv ?m = (rv ?tp1 + rv target) / 2"
    using fin_div [OF s(1), of "Fin 2"] by (simp add: s(2))
  show False
  proof (cases "js_ge ?rr (Fin 2)")
    case True
    then have "price (tp2 (calculatePartialTPLevels entry stop target pt)) = ?h"
      using n3 by (simp add: calculatePartialTPLevels_def Let_def)
    with p have "?h = ?q" by simp
    then have "rv ?h = rv ?q" by (rule arg_cong)
    then show False using k by (simp add: h q split: if_splits)
  next
    case False
    then have "price (tp2 (calculatePartialTPLevels entry stop target pt)) = ?m"
      using n3 by (simp add: calculatePartialTPLevels_def Let_def)
    with p have "?m = ?q" by simp
    then have "rv ?m = rv ?q" by (rule arg_cong)
    then have "rv target - rv entry = (if pt = Long then 3 * rv ?risk else - (3 * rv ?risk))"
      by (simp add: m q tp1(2) split: if_splits)
    then have "\<bar>rv target - rv entry\<bar> = 3 * rv ?risk"
      using k by (simp split: if_splits)
    then show False using lt3 by (simp add: rew(2))
  qed
qed


text \<open>
  C7. When the quotient of the reward distance and the risk distance is exactly 2, the
  second level is placed one and a half risk distances from the entry, on the side of
  the target, its multiple is 1.5, and it is not placed two risk distances away. The
  placement at two risk distances applies only when the quotient is at least 3: for
  finite prices with entry and stop different, a second level at two risk distances
  implies a quotient of at least 3.
\<close>

theorem tp2_at_ratio_two:
  assumes "js_div (js_abs (js_sub target entry)) (js_abs (js_sub entry stop)) = Fin 2"
  shows "price (tp2 (calculatePartialTPLevels entry stop target pt))
           = (if pt = Long then js_add entry (js_mul (js_abs (js_sub entry stop)) (Fin (3 / 2)))
              else js_sub entry (js_mul (js_abs (js_sub entry stop)) (Fin (3 / 2))))
       \<and> rMultiple (tp2 (calculatePartialTPLevels entry stop target pt)) = Fin (3 / 2)
       \<and> price (tp2 (calculatePartialTPLevels entry stop target pt))
           \<noteq> (if pt = Long then js_add entry (js_mul (js_abs (js_sub entry stop)) (Fin 2))
              else js_sub entry (js_mul (js_abs (js_sub entry stop)) (Fin 2)))
       \<and> (\<forall>e s t p. is_fin e \<and> is_fin s \<and> is_fin t \<and> rv e \<noteq> rv s
             \<and> price (tp2 (calculatePartialTPLevels e s t p))
                 = (if p = Long then js_add e (js_mul (js_abs (js_sub e s)) (Fin 2))
                    else js_sub e (js_mul (js_abs (js_sub e s)) (Fin 2)))
           \<longrightarrow> js_ge (js_div (js_abs (js_sub t e)) (js_abs (js_sub e s))) (Fin 3))"
  using tp2_ratio_two_placement [OF assms, of pt] tp2_two_risk_only_from_three
  by blast

theorem tp2_at_ratio_two_witness:
  "js_div (js_abs (js_sub (Fin 110) (Fin 100))) (js_abs (js_sub (Fin 100) (Fin 95))) = Fin 2
   \<and> price (tp2 (calculatePartialTPLevels (Fin 100) (Fin 95) (Fin 110) Long)) = Fin (215 / 2)
   \<and> rMultiple (tp2 (calculatePartialTPLevels (Fin 100) (Fin 95) (Fin 110) Long)) = Fin (3 / 2)
   \<and> is_fin (Fin 100) \<and> is_fin (Fin 95) \<and> is_fin (Fin 115) \<and> rv (Fin 100) \<noteq> rv (Fin 95)
   \<and> price (tp2 (calculatePartialTPLevels (Fin 100) (Fin 95) (Fin 115) Long)) = Fin 110
   \<and> js_ge (js_div (js_abs (js_sub (Fin 115) (Fin 100))) (js_abs (js_sub (Fin 100) (Fin 95)))) (Fin 3)"
proof -
  have h: "js_div (js_abs (js_sub (Fin 110) (Fin 100))) (js_abs (js_sub (Fin 100) (Fin 95))) = Fin 2"
    by (simp add: js_arith_defs)
  have p: "price (tp2 (calculatePartialTPLevels (Fin 100) (Fin 95) (Fin 115) Long)) = Fin 110"
    by (simp add: calculatePartialTPLevels_unfold js_arith_defs)
  from tp2_at_ratio_two [OF h, of Long] p show ?thesis
    by (simp add: js_arith_defs)
qed

lemma lt_between_fin: "js_lt a b \<Longrightarrow> js_lt b c \<Longrightarrow> is_fin b"
  by (cases a; cases b; cases c) simp_all

lemma low_ratio_long_fin:
  assumes fe: "is_fin entry" and fs: "is_fin stop" and ft: "is_fin target"
    and o: "rv stop < rv entry" "rv entry < rv target" and r: "rv target - rv entry < rv entry - rv stop"
  shows "price (tp2 (calculatePartialTPLevels entry stop target Long))
           = js_div (js_add (price (tp1 (calculatePartialTPLevels entry stop target Long))) target) (Fin 2)
       \<and> js_lt target (price (tp1 (calculatePartialTPLevels entry stop target Long)))
       \<and> js_lt target (price (tp2 (calculatePartialTPLevels entry stop target Long)))"
proof -
  let ?risk = "js_abs (js_sub entry stop)"
  let ?rew = "js_abs (js_sub target entry)"
  let ?tp1 = "js_add entry ?risk"
  let ?mid = "js_div (js_add ?tp1 target) (Fin 2)"
  have risk: "is_fin ?risk" "rv ?risk = rv entry - rv stop"
    using fin_sub [OF fe fs] fin_abs [of "js_sub entry stop"] o by simp_all
  have rew: "is_fin ?rew" "rv ?rew = rv target - rv entry"
    using fin_sub [OF ft fe] fin_abs [of "js_sub target entry"] o by simp_all
  have rr: "is_fin (js_div ?rew ?risk)" "rv (js_div ?rew ?risk) < 1"
    using fin_div [OF rew(1) risk(1)] o r by (simp_all add: risk(2) rew(2))
  have b3: "\<not> js_ge (js_div ?rew ?risk) (Fin 3)" and b2: "\<not> js_ge (js_div ?rew ?risk) (Fin 2)"
    using rr fin_le [of "Fin 3" "js_div ?rew ?risk"] fin_le [of "Fin 2" "js_div ?rew ?risk"]
    by (simp_all add: js_ge_def)
  have tp1: "is_fin ?tp1" "rv ?tp1 = rv entry + (rv entry - rv stop)"
    using fin_add [OF fe risk(1)] by (simp_all add: risk(2))
  have sum: "is_fin (js_add ?tp1 target)" "rv (js_add ?tp1 target) = rv ?tp1 + rv target"
    using fin_add [OF tp1(1) ft] by simp_all
  have mid: "is_fin ?mid" "rv ?mid = (rv ?tp1 + rv target) / 2"
    using fin_div [OF sum(1), of "Fin 2"] by (simp_all add: sum(2))
  have p1: "price (tp1 (calculatePartialTPLevels entry stop target Long)) = ?tp1"
    by (simp add: calculatePartialTPLevels_def Let_def)
  have p2: "price (tp2 (calculatePartialTPLevels entry stop target Long)) = ?mid"
    using b3 b2 by (simp add: calculatePartialTPLevels_def Let_def)
  have "js_lt target ?tp1"
    using fin_lt [OF ft tp1(1)] r by (simp add: tp1(2))
  moreover have "js_lt target ?mid"
    using fin_lt [OF ft mid(1)] r by (simp add: mid(2) tp1(2))
  ultimately show ?thesis
    by (simp only: p1 p2 simp_thms)
qed

lemma low_ratio_long_inf:
  assumes fe: "is_fin entry" and ft: "is_fin target"
  shows "price (tp2 (calculatePartialTPLevels entry NInf target Long))
           = js_div (js_add (price (tp1 (calculatePartialTPLevels entry NInf target Long))) target) (Fin 2)
       \<and> js_lt target (price (tp1 (calculatePartialTPLevels entry NInf target Long)))
       \<and> js_lt target (price (tp2 (calculatePartialTPLevels entry NInf target Long)))"
  using assms
  by (cases entry; cases target)
     (simp_all add: calculatePartialTPLevels_def Let_def js_arith_defs)


lemma low_ratio_short_fin:
  assumes fe: "is_fin entry" and fs: "is_fin stop" and ft: "is_fin target"
    and o: "rv target < rv entry" "rv entry < rv stop" and r: "rv entry - rv target < rv stop - rv entry"
  shows "price (tp2 (calculatePartialTPLevels entry stop target Short))
           = js_div (js_add (price (tp1 (calculatePartialTPLevels entry stop target Short))) target) (Fin 2)
       \<and> js_lt (price (tp1 (calculatePartialTPLevels entry stop target Short))) target
       \<and> js_lt (price (tp2 (calculatePartialTPLevels entry stop target Short))) target"
proof -
  let ?risk = "js_abs (js_sub entry stop)"
  let ?rew = "js_abs (js_sub target entry)"
  let ?tp1 = "js_sub entry ?risk"
  let ?mid = "js_div (js_add ?tp1 target) (Fin 2)"
  have risk: "is_fin ?risk" "rv ?risk = rv stop - rv entry"
    using fin_sub [OF fe fs] fin_abs [of "js_sub entry stop"] o by simp_all
  have rew: "is_fin ?rew" "rv ?rew = rv entry - rv target"
    using fin_sub [OF ft fe] fin_abs [of "js_sub target entry"] o by simp_all
  have rr: "is_fin (js_div ?rew ?risk)" "rv (js_div ?rew ?risk) < 1"
    using fin_div [OF rew(1) risk(1)] o r by (simp_all add: risk(2) rew(2))
  have b3: "\<not> js_ge (js_div ?rew ?risk) (Fin 3)" and b2: "\<not> js_ge (js_div ?rew ?risk) (Fin 2)"
    using rr fin_le [of "Fin 3" "js_div ?rew ?risk"] fin_le [of "Fin 2" "js_div ?rew ?risk"]
    by (simp_all add: js_ge_def)
  have tp1: "is_fin ?tp1" "rv ?tp1 = rv entry - (rv stop - rv entry)"
    using fin_sub [OF fe risk(1)] by (simp_all add: risk(2))
  have sum: "is_fin (js_add ?tp1 target)" "rv (js_add ?tp1 target) = rv ?tp1 + rv target"
    using fin_add [OF tp1(1) ft] by simp_all
  have mid: "is_fin ?mid" "rv ?mid = (rv ?tp1 + rv target) / 2"
    using fin_div [OF sum(1), of "Fin 2"] by (simp_all add: sum(2))
  have p1: "price (tp1 (calculatePartialTPLevels entry stop target Short)) = ?tp1"
    by (simp add: calculatePartialTPLevels_def Let_def)
  have p2: "price (tp2 (calculatePartialTPLevels entry stop target Short)) = ?mid"
    using b3 b2 by (simp add: calculatePartialTPLevels_def Let_def)
  have "js_lt ?tp1 target"
    using fin_lt [OF tp1(1) ft] r by (simp add: tp1(2))
  moreover have "js_lt ?mid target"
    using fin_lt [OF mid(1) ft] r by (simp add: mid(2) tp1(2))
  ultimately show ?thesis
    by (simp only: p1 p2 simp_thms)
qed

lemma low_ratio_short_inf:
  assumes fe: "is_fin entry" and ft: "is_fin target"
  shows "price (tp2 (calculatePartialTPLevels entry PInf target Short))
           = js_div (js_add (price (tp1 (calculatePartialTPLevels entry PInf target Short))) target) (Fin 2)
       \<and> js_lt (price (tp1 (calculatePartialTPLevels entry PInf target Short))) target
       \<and> js_lt (price (tp2 (calculatePartialTPLevels entry PInf target Short))) target"
  using assms
  by (cases entry; cases target)
     (simp_all add: calculatePartialTPLevels_def Let_def js_arith_defs)

lemma lt_fin_cases: "js_lt a b \<Longrightarrow> is_fin b \<Longrightarrow> a = NInf \<or> is_fin a"
  by (cases a; cases b) simp_all

lemma gt_fin_cases: "js_lt a b \<Longrightarrow> is_fin a \<Longrightarrow> b = PInf \<or> is_fin b"
  by (cases a; cases b) simp_all

lemma sub_inf_fin:
  assumes "is_fin b"
  shows "js_sub PInf b = PInf" "js_sub NInf b = NInf" "js_sub b PInf = NInf" "js_sub b NInf = PInf"
  using assms by (cases b; simp add: js_sub_def js_add_def)+

lemma sub_lt_fin_left: "js_lt (js_sub a b) c \<Longrightarrow> is_fin b \<Longrightarrow> a = NInf \<or> is_fin a"
  by (cases a) (simp_all add: sub_inf_fin, simp_all add: js_sub_def js_add_def)

lemma sub_lt_fin_right: "js_lt (js_sub a b) c \<Longrightarrow> is_fin a \<Longrightarrow> b = PInf \<or> is_fin b"
  by (cases b) (simp_all add: sub_inf_fin, simp_all add: js_sub_def js_add_def)

text \<open>
  C10. For a trade that passes the directional check and whose reward distance is
  strictly smaller than its risk distance, the first level lies strictly beyond the
  target (above it for a long position, below it for a short one), the second level is
  the midpoint of the first level and the target and lies strictly beyond the target
  too, and the third level is the target: the levels are not ordered from the entry
  toward the target.
\<close>

theorem low_ratio_levels_beyond_target:
  assumes ord: "if pt = Long then js_lt stop entry \<and> js_lt entry target
                else js_lt target entry \<and> js_lt entry stop"
    and low: "js_lt (fst (snd (directional pt entry stop target)))
                    (fst (directional pt entry stop target))"
  shows "price (tp3 (calculatePartialTPLevels entry stop target pt)) = target
       \<and> price (tp2 (calculatePartialTPLevels entry stop target pt))
           = js_div (js_add (price (tp1 (calculatePartialTPLevels entry stop target pt))) target) (Fin 2)
       \<and> (if pt = Long
           then js_gt (price (tp1 (calculatePartialTPLevels entry stop target pt))) target
              \<and> js_gt (price (tp2 (calculatePartialTPLevels entry stop target pt))) target
           else js_lt (price (tp1 (calculatePartialTPLevels entry stop target pt))) target
              \<and> js_lt (price (tp2 (calculatePartialTPLevels entry stop target pt))) target)"
proof -
  have p3: "price (tp3 (calculatePartialTPLevels entry stop target pt)) = target"
    by (simp add: calculatePartialTPLevels_def Let_def)
  show ?thesis
  proof (cases pt)
    case Long
    from ord Long have o: "js_lt stop entry" "js_lt entry target" by simp_all
    from low Long have l: "js_lt (js_sub target entry) (js_sub entry stop)"
      by (simp add: directional_def)
    have fe: "is_fin entry" using o by (rule lt_between_fin)
    have ft: "is_fin target"
      using sub_lt_fin_left [OF l fe] gt_fin_cases [OF o(2) fe] by auto
    from lt_fin_cases [OF o(1) fe] show ?thesis
    proof
      assume "stop = NInf"
      then show ?thesis
        using low_ratio_long_inf [OF fe ft] Long p3 by (auto simp: js_gt_def)
    next
      assume fs: "is_fin stop"
      have "rv stop < rv entry" "rv entry < rv target"
        using o fin_lt [OF fs fe] fin_lt [OF fe ft] by simp_all
      moreover have "rv target - rv entry < rv entry - rv stop"
        using l fin_sub [OF ft fe] fin_sub [OF fe fs]
          fin_lt [of "js_sub target entry" "js_sub entry stop"] by simp
      ultimately show ?thesis
        using low_ratio_long_fin [OF fe fs ft] Long p3 by (auto simp: js_gt_def)
    qed
  next
    case Short
    from ord Short have o: "js_lt target entry" "js_lt entry stop" by simp_all
    from low Short have l: "js_lt (js_sub entry target) (js_sub stop entry)"
      by (simp add: directional_def)
    have fe: "is_fin entry" using o by (rule lt_between_fin)
    have ft: "is_fin target"
      using sub_lt_fin_right [OF l fe] lt_fin_cases [OF o(1) fe] by auto
    from gt_fin_cases [OF o(2) fe] show ?thesis
    proof
      assume "stop = PInf"
      then show ?thesis
        using low_ratio_short_inf [OF fe ft] Short p3 by auto
    next
      assume fs: "is_fin stop"
      have "rv target < rv entry" "rv entry < rv stop"
        using o fin_lt [OF ft fe] fin_lt [OF fe fs] by simp_all
      moreover have "rv entry - rv target < rv stop - rv entry"
        using l fin_sub [OF fe ft] fin_sub [OF fs fe]
          fin_lt [of "js_sub entry target" "js_sub stop entry"] by simp
      ultimately show ?thesis
        using low_ratio_short_fin [OF fe fs ft] Short p3 by auto
    qed
  qed
qed

theorem low_ratio_levels_beyond_target_witness:
  "js_lt (Fin 95) (Fin 100) \<and> js_lt (Fin 100) (Fin 103)
   \<and> js_lt (fst (snd (directional Long (Fin 100) (Fin 95) (Fin 103))))
            (fst (directional Long (Fin 100) (Fin 95) (Fin 103)))
   \<and> price (tp1 (calculatePartialTPLevels (Fin 100) (Fin 95) (Fin 103) Long)) = Fin 105
   \<and> price (tp2 (calculatePartialTPLevels (Fin 100) (Fin 95) (Fin 103) Long)) = Fin 104
   \<and> price (tp3 (calculatePartialTPLevels (Fin 100) (Fin 95) (Fin 103) Long)) = Fin 103
   \<and> js_gt (price (tp1 (calculatePartialTPLevels (Fin 100) (Fin 95) (Fin 103) Long))) (Fin 103)
   \<and> js_gt (price (tp2 (calculatePartialTPLevels (Fin 100) (Fin 95) (Fin 103) Long))) (Fin 103)"
  using low_ratio_levels_beyond_target [of Long "Fin 95" "Fin 100" "Fin 103"]
  by (simp add: directional_def calculatePartialTPLevels_def Let_def js_arith_defs)

subsection \<open>Position sizing and the capital\<close>

lemma calc_Sizing_fields:
  assumes "calculateRiskReward s = Some (Sizing r)"
  shows "riskPerCoin r = fst (directional (positionType s) (entryPrice s) (stopLoss s) (takeProfit s))
    \<and> rewardPerCoin r
        = fst (snd (directional (positionType s) (entryPrice s) (stopLoss s) (takeProfit s)))
    \<and> (if truthy (totalCapital s)
     then maxRiskAmount r = js_div (js_mul (totalCapital s) (riskPercentage s)) (Fin 100)
        \<and> allocatedAmount r = js_div (js_mul (totalCapital s) (assetAllocation s)) (Fin 100)
        \<and> leverageInfo r = Some (calculateOptimalLeverage (entryPrice s) (stopLoss s)
              (totalCapital s) (riskPercentage s) (assetAllocation s) (maxLeverage s))
        \<and> positionValue r = js_mul (allocatedAmount r)
              (optimal (calculateOptimalLeverage (entryPrice s) (stopLoss s)
                 (totalCapital s) (riskPercentage s) (assetAllocation s) (maxLeverage s)))
        \<and> recommendedAssets r = js_div (positionValue r) (entryPrice s)
        \<and> potentialLoss r = js_mul (recommendedAssets r) (riskPerCoin r)
        \<and> potentialProfit r = js_mul (recommendedAssets r) (rewardPerCoin r)
        \<and> partialTPLevels r = Some (calculatePartialTPLevels (entryPrice s) (stopLoss s)
              (takeProfit s) (positionType s))
        \<and> partialTPProfits r =
             (if enablePartialTP s
              then Some (calculatePartialTPProfits s
                     (calculatePartialTPLevels (entryPrice s) (stopLoss s) (takeProfit s)
                        (positionType s))
                     (recommendedAssets r) (riskPerCoin r) (entryPrice s))
              else None)
     else maxRiskAmount r = Fin 0 \<and> allocatedAmount r = Fin 0 \<and> positionValue r = Fin 0
        \<and> recommendedAssets r = Fin 0 \<and> potentialLoss r = Fin 0 \<and> potentialProfit r = Fin 0
        \<and> leverageInfo r = None \<and> partialTPLevels r = None \<and> partialTPProfits r = None)"
  using assms
  by (auto simp: calculateRiskReward_def Let_def split: if_splits)

text \<open>
  C8, as stated, fails: the sizing is guarded by the truthiness of the capital, not by
  its sign, so for a negative capital the leverage recommendation, the sizing fields and
  the plan are computed although the capital is not greater than zero.
\<close>

theorem sizing_negative_capital_counterexample:
  "\<not> js_gt (Fin (- 10000)) (Fin 0)
   \<and> calculateRiskReward
        \<lparr> entryPrice = Fin 100, stopLoss = Fin 95, takeProfit = Fin 115,
          totalCapital = Fin (- 10000), riskPercentage = Fin 1, assetAllocation = Fin 10,
          maxLeverage = Fin 75, positionType = Long, exchangeRate = Fin (1463 / 25),
          isLoadingRate = False, enablePartialTP = True,
          partialTP1Percent = Fin 50, partialTP2Percent = Fin 30 \<rparr>
     = Some (Sizing
        \<lparr> riskPerCoin = Fin 5, rewardPerCoin = Fin 15, ratio = Fin 3,
          maxRiskAmount = Fin (- 100), allocatedAmount = Fin (- 1000),
          leverageInfo = Some
            \<lparr> optimal = Fin 2, riskPercentageMove = Fin 5,
              explanation = ''Moderate risk distance - conservative leverage recommended'' \<rparr>,
          recommendedAssets = Fin (- 20), potentialLoss = Fin (- 100),
          potentialProfit = Fin (- 300), positionValue = Fin (- 2000),
          partialTPLevels = Some
            \<lparr> tp1 = \<lparr> price = Fin 105, rMultiple = Fin 1,
                      description = ''Secure profits and move SL to entry'' \<rparr>,
              tp2 = \<lparr> price = Fin 110, rMultiple = Fin 2,
                      description = ''Lock in major profits'' \<rparr>,
              tp3 = \<lparr> price = Fin 115, rMultiple = Fin 3,
                      description = ''Maximum profit target'' \<rparr> \<rparr>,
          partialTPProfits = Some
            \<lparr> leg_tp1 = \<lparr> assets = Fin (- 10), profit = Fin (- 50), percent = Fin 50 \<rparr>,
              leg_tp2 = \<lparr> assets = Fin (- 6), profit = Fin (- 60), percent = Fin 30 \<rparr>,
              leg_tp3 = \<lparr> assets = Fin (- 4), profit = Fin (- 60), percent = Fin 20 \<rparr>,
              totalProfit = Fin (- 170), avgExitRMultiple = Fin (17 / 10) \<rparr> \<rparr>)"
  by (simp add: calculateRiskReward_unfold directional_def calculatePartialTPLevels_unfold
      calculatePartialTPProfits_unfold lev_unfold js_arith_defs)

text \<open>
  C8, amended. For every trade that evaluates to a report: when the capital is absent,
  unparsable or zero, the sizing fields are zero and the leverage recommendation, the
  levels and the profits of the plan are absent; when the capital is any nonzero number,
  which includes every capital greater than zero, the sizing fields and the leverage
  recommendation are computed by their formulas, the levels of the plan are present, and
  the profits of the plan are present exactly when partial take-profits are enabled.
\<close>

theorem sizing_iff_capital:
  assumes "calculateRiskReward s = Some (Sizing r)"
  shows "(js_gt (totalCapital s) (Fin 0) \<longrightarrow> truthy (totalCapital s))
   \<and> (if truthy (totalCapital s)
     then maxRiskAmount r = js_div (js_mul (totalCapital s) (riskPercentage s)) (Fin 100)
        \<and> allocatedAmount r = js_div (js_mul (totalCapital s) (assetAllocation s)) (Fin 100)
        \<and> leverageInfo r = Some (calculateOptimalLeverage (entryPrice s) (stopLoss s)
              (totalCapital s) (riskPercentage s) (assetAllocation s) (maxLeverage s))
        \<and> positionValue r = js_mul (allocatedAmount r)
              (optimal (calculateOptimalLeverage (entryPrice s) (stopLoss s)
                 (totalCapital s) (riskPercentage s) (assetAllocation s) (maxLeverage s)))
        \<and> recommendedAssets r = js_div (positionValue r) (entryPrice s)
        \<and> potentialLoss r = js_mul (recommendedAssets r) (riskPerCoin r)
        \<and> potentialProfit r = js_mul (recommendedAssets r) (rewardPerCoin r)
        \<and> partialTPLevels r = Some (calculatePartialTPLevels (entryPrice s) (stopLoss s)
              (takeProfit s) (positionType s))
        \<and> partialTPProfits r =
             (if enablePartialTP s
              then Some (calculatePartialTPProfits s
                     (calculatePartialTPLevels (entryPrice s) (stopLoss s) (takeProfit s)
                        (positionType s))
                     (recommendedAssets r) (riskPerCoin r) (entryPrice s))
              else None)
     else maxRiskAmount r = Fin 0 \<and> allocatedAmount r = Fin 0 \<and> positionValue r = Fin 0
        \<and> recommendedAssets r = Fin 0 \<and> potentialLoss r = Fin 0 \<and> potentialProfit r = Fin 0
        \<and> leverageInfo r = None \<and> partialTPLevels r = None \<and> partialTPProfits r = None)"
proof -
  have "truthy c" if "js_gt c (Fin 0)" for c
    using that by (cases c) (simp_all add: js_gt_def truthy_def)
  then show ?thesis
    using calc_Sizing_fields [OF assms] by blast
qed

theorem sizing_iff_capital_witness:
  "\<exists>r li. calculateRiskReward
        \<lparr> entryPrice = Fin 100, stopLoss = Fin 95, takeProfit = Fin 115,
          totalCapital = Fin 10000, riskPercentage = Fin 1, assetAllocation = Fin 10,
          maxLeverage = Fin 75, positionType = Long, exchangeRate = Fin (1463 / 25),
          isLoadingRate = False, enablePartialTP = True,
          partialTP1Percent = Fin 50, partialTP2Percent = Fin 30 \<rparr> = Some (Sizing r)
     \<and> truthy (Fin 10000)
     \<and> maxRiskAmount r = Fin 100 \<and> allocatedAmount r = Fin 1000
     \<and> leverageInfo r = Some li \<and> optimal li = Fin 2
     \<and> positionValue r = Fin 2000 \<and> recommendedAssets r = Fin 20"
proof -
  let ?s = "\<lparr> entryPrice = Fin 100, stopLoss = Fin 95, takeProfit = Fin 115,
          totalCapital = Fin 10000, riskPercentage = Fin 1, assetAllocation = Fin 10,
          maxLeverage = Fin 75, positionType = Long, exchangeRate = Fin (1463 / 25),
          isLoadingRate = False, enablePartialTP = True,
          partialTP1Percent = Fin 50, partialTP2Percent = Fin 30 \<rparr>"
  obtain r where r: "calculateRiskReward ?s = Some (Sizing r)"
    by (simp add: calculateRiskReward_def directional_def js_arith_defs Let_def)
  have t: "truthy (Fin 10000)" by (simp add: truthy_def)
  from sizing_iff_capital [OF r] t
  have "maxRiskAmount r = Fin 100 \<and> allocatedAmount r = Fin 1000
     \<and> leverageInfo r = Some (calculateOptimalLeverage (Fin 100) (Fin 95) (Fin 10000) (Fin 1) (Fin 10) (Fin 75))
     \<and> optimal (calculateOptimalLeverage (Fin 100) (Fin 95) (Fin 10000) (Fin 1) (Fin 10) (Fin 75)) = Fin 2
     \<and> positionValue r = Fin 2000 \<and> recommendedAssets r = Fin 20"
    by (simp add: lev_defs js_arith_defs Let_def)
  with r t show ?thesis by blast
qed

subsection \<open>The blended multiple of the plan\<close>

lemma mul_cancel_div:
  "is_fin A \<Longrightarrow> rv A \<noteq> 0 \<Longrightarrow> js_div (js_mul A x) (js_mul A y) = js_div x y"
  by (cases A; cases x; cases y) (auto simp: js_arith_defs sign_rules)

lemma zero_div_100: "is_zero z \<Longrightarrow> is_zero (js_div z (Fin 100))"
  by (cases z) (simp_all add: js_div_def signed_zero_def)

lemma one_minus_zeros: "is_zero z1 \<Longrightarrow> is_zero z2 \<Longrightarrow> js_sub (js_sub (Fin 1) z1) z2 = Fin 1"
  by (cases z1; cases z2) (simp_all add: js_sub_def js_add_def)

lemma zero_mul_fin: "is_zero z \<Longrightarrow> is_fin x \<Longrightarrow> is_zero (js_mul z x) \<and> is_zero (js_mul x z)"
  by (cases z; cases x) (simp_all add: js_mul_def signed_zero_def)

lemma zero_add_zero: "is_zero z \<Longrightarrow> is_zero z' \<Longrightarrow> is_zero (js_add z z')"
  by (cases z; cases z') (simp_all add: js_add_def signed_zero_def)

lemma zero_add: "is_zero z \<Longrightarrow> \<not> is_zero x \<Longrightarrow> js_add z x = x"
  by (cases z; cases x) (simp_all add: js_add_def)

lemma mul_one: "is_fin A \<Longrightarrow> rv A \<noteq> 0 \<Longrightarrow> js_mul A (Fin 1) = A"
  by (cases A) (simp_all add: js_mul_def)

lemma mul_nonzero:
  "is_fin A \<Longrightarrow> rv A \<noteq> 0 \<Longrightarrow> \<not> is_zero x \<Longrightarrow> \<not> is_zero (js_mul A x)"
  by (cases A; cases x) (simp_all add: js_mul_def signed_inf_def)

lemma profits_all_at_target:
  assumes z: "is_zero (partialTP1Percent s)" "is_zero (partialTP2Percent s)"
    and A: "is_fin A" "rv A \<noteq> 0"
    and f: "is_fin entry" "is_fin (price (tp1 L))" "is_fin (price (tp2 L))"
    and D: "\<not> is_zero (js_abs (js_sub (price (tp3 L)) entry))"
  shows "avgExitRMultiple (calculatePartialTPProfits s L A R entry)
           = js_div (js_abs (js_sub (price (tp3 L)) entry)) R"
proof -
  let ?p1 = "js_div (partialTP1Percent s) (Fin 100)"
  let ?p2 = "js_div (partialTP2Percent s) (Fin 100)"
  let ?D = "js_abs (js_sub (price (tp3 L)) entry)"
  have p: "is_zero ?p1" "is_zero ?p2" using z by (simp_all add: zero_div_100)
  have p3: "js_sub (js_sub (Fin 1) ?p1) ?p2 = Fin 1" using p by (rule one_minus_zeros)
  have fz: "\<And>z. is_zero z \<Longrightarrow> is_fin z" subgoal for z by (cases z) simp_all done
  have a1: "is_zero (js_mul A ?p1)" "is_zero (js_mul A ?p2)"
    using zero_mul_fin [OF p(1) A(1)] zero_mul_fin [OF p(2) A(1)] by simp_all
  have d1: "is_fin (js_abs (js_sub (price (tp1 L)) entry))"
       "is_fin (js_abs (js_sub (price (tp2 L)) entry))"
    using f by (simp_all add: fin_abs_iff fin_sub_iff)
  have pr: "is_zero (js_mul (js_mul A ?p1) (js_abs (js_sub (price (tp1 L)) entry)))"
       "is_zero (js_mul (js_mul A ?p2) (js_abs (js_sub (price (tp2 L)) entry)))"
    using zero_mul_fin [OF a1(1) d1(1)] zero_mul_fin [OF a1(2) d1(2)] by simp_all
  have nz: "\<not> is_zero (js_mul A ?D)" using A D by (rule mul_nonzero)
  have tot: "js_add (js_add (js_mul (js_mul A ?p1) (js_abs (js_sub (price (tp1 L)) entry)))
                    (js_mul (js_mul A ?p2) (js_abs (js_sub (price (tp2 L)) entry))))
               (js_mul A ?D) = js_mul A ?D"
    using zero_add [OF zero_add_zero [OF pr] nz] .
  show ?thesis
    by (simp add: calculatePartialTPProfits_def Let_def p3 mul_one [OF A] tot
        mul_cancel_div [OF A])
qed


lemma abs_nonneg: "\<not> is_neg (js_abs x)"
  by (cases x) simp_all

lemma levels_fin:
  assumes fe: "is_fin entry" and fs: "is_fin stop" and t: "target \<noteq> NaN"
  shows "is_fin (price (tp1 (calculatePartialTPLevels entry stop target pt)))
       \<and> is_fin (price (tp2 (calculatePartialTPLevels entry stop target pt)))"
proof -
  let ?risk = "js_abs (js_sub entry stop)"
  have risk: "is_fin ?risk" using fe fs by (simp add: fin_abs_iff fin_sub_iff)
  have m: "is_fin (js_mul ?risk (Fin 2))" "is_fin (js_mul ?risk (Fin (3 / 2)))"
    using fin_mul [OF risk, of "Fin 2"] fin_mul [OF risk, of "Fin (3 / 2)"] by simp_all
  have tp1: "is_fin (js_add entry ?risk)" "is_fin (js_sub entry ?risk)"
    using fin_add [OF fe risk] fin_sub [OF fe risk] by simp_all
  have b: "is_fin (js_add entry (js_mul ?risk (Fin 2)))" "is_fin (js_sub entry (js_mul ?risk (Fin 2)))"
      "is_fin (js_add entry (js_mul ?risk (Fin (3 / 2))))"
      "is_fin (js_sub entry (js_mul ?risk (Fin (3 / 2))))"
    using fin_add [OF fe m(1)] fin_sub [OF fe m(1)] fin_add [OF fe m(2)] fin_sub [OF fe m(2)]
    by simp_all
  show ?thesis
  proof (cases "is_fin target")
    case True
    have "is_fin (js_div (js_add (js_add entry ?risk) target) (Fin 2))"
        "is_fin (js_div (js_add (js_sub entry ?risk) target) (Fin 2))"
      using fin_add [OF tp1(1) True] fin_add [OF tp1(2) True]
        fin_div [of "js_add (js_add entry ?risk) target" "Fin 2"]
        fin_div [of "js_add (js_sub entry ?risk) target" "Fin 2"] by simp_all
    then show ?thesis
      using tp1 b by (simp add: calculatePartialTPLevels_def Let_def)
  next
    case False
    with t have "target = PInf \<or> target = NInf" by (cases target) simp_all
    then have "js_abs (js_sub target entry) = PInf"
      using sub_inf_fin [OF fe] by auto
    moreover have "js_div PInf ?risk = PInf"
      using risk abs_nonneg [of "js_sub entry stop"]
      by (cases ?risk) (simp_all add: js_div_def signed_inf_def)
    ultimately have "js_ge (js_div (js_abs (js_sub target entry)) ?risk) (Fin 3)"
      by (simp add: js_ge_def)
    then show ?thesis
      using tp1 b by (simp add: calculatePartialTPLevels_def Let_def)
  qed
qed

lemma abs_sub_lt: "js_lt a b \<Longrightarrow> js_abs (js_sub b a) = js_sub b a \<and> js_abs (js_sub a b) = js_sub b a"
  by (cases a; cases b) (auto simp: js_sub_def js_add_def signed_zero_def)

lemma abs_sub_not_nan: "is_fin e \<Longrightarrow> t \<noteq> NaN \<Longrightarrow> js_abs (js_sub t e) \<noteq> NaN"
  by (cases t; cases e) (simp_all add: js_sub_def js_add_def signed_zero_def)

lemma not_le0_nonzero: "\<not> js_le x (Fin 0) \<Longrightarrow> x \<noteq> NaN \<Longrightarrow> \<not> is_zero x"
  by (cases x) auto

text \<open>
  C6, as stated, fails: with the maximal leverage field empty the recommended leverage
  is not a number, so the position size and the blended multiple are not numbers either,
  while the ratio is 3.
\<close>

theorem avg_exit_nan_counterexample:
  "calculateRiskReward
        \<lparr> entryPrice = Fin 100, stopLoss = Fin 95, takeProfit = Fin 115,
          totalCapital = Fin 10000, riskPercentage = Fin 1, assetAllocation = Fin 10,
          maxLeverage = NaN, positionType = Long, exchangeRate = Fin (1463 / 25),
          isLoadingRate = False, enablePartialTP = True,
          partialTP1Percent = Fin 0, partialTP2Percent = Fin 0 \<rparr>
     = Some (Sizing
        \<lparr> riskPerCoin = Fin 5, rewardPerCoin = Fin 15, ratio = Fin 3,
          maxRiskAmount = Fin 100, allocatedAmount = Fin 1000,
          leverageInfo = Some
            \<lparr> optimal = NaN, riskPercentageMove = Fin 5,
              explanation = ''Moderate risk distance - conservative leverage recommended'' \<rparr>,
          recommendedAssets = NaN, potentialLoss = NaN,
          potentialProfit = NaN, positionValue = NaN,
          partialTPLevels = Some
            \<lparr> tp1 = \<lparr> price = Fin 105, rMultiple = Fin 1,
                      description = ''Secure profits and move SL to entry'' \<rparr>,
              tp2 = \<lparr> price = Fin 110, rMultiple = Fin 2,
                      description = ''Lock in major profits'' \<rparr>,
              tp3 = \<lparr> price = Fin 115, rMultiple = Fin 3,
                      description = ''Maximum profit target'' \<rparr> \<rparr>,
          partialTPProfits = Some
            \<lparr> leg_tp1 = \<lparr> assets = NaN, profit = NaN, percent = Fin 0 \<rparr>,
              leg_tp2 = \<lparr> assets = NaN, profit = NaN, percent = Fin 0 \<rparr>,
              leg_tp3 = \<lparr> assets = NaN, profit = NaN, percent = Fin 100 \<rparr>,
              totalProfit = NaN, avgExitRMultiple = NaN \<rparr> \<rparr>)
   \<and> (NaN :: jsnum) \<noteq> Fin 3"
  by (simp add: calculateRiskReward_unfold directional_def calculatePartialTPLevels_unfold
      calculatePartialTPProfits_unfold lev_unfold js_arith_defs)

text \<open>
  C6, amended. For every trade that evaluates to a report with the capital present and
  partial take-profits enabled, if both intermediate percentages are zero, the position
  size is a finite nonzero number and the stop is finite, then the blended multiple of
  the plan equals the ratio.
\<close>

theorem avg_exit_equals_ratio:
  assumes r: "calculateRiskReward s = Some (Sizing r)"
    and cap: "truthy (totalCapital s)" and en: "enablePartialTP s"
    and z: "is_zero (partialTP1Percent s)" "is_zero (partialTP2Percent s)"
    and A: "is_fin (recommendedAssets r)" "rv (recommendedAssets r) \<noteq> 0"
    and fs: "is_fin (stopLoss s)"
  shows "\<exists>p. partialTPProfits r = Some p \<and> avgExitRMultiple p = ratio r"
proof -
  let ?e = "entryPrice s" and ?st = "stopLoss s" and ?t = "takeProfit s"
  let ?d = "directional (positionType s) ?e ?st ?t"
  let ?L = "calculatePartialTPLevels ?e ?st ?t (positionType s)"
  note f = calc_Sizing_fields [OF r] and g = calc_Sizing_ratio [OF r]
  have ok: "if positionType s = Long then js_lt ?st ?e \<and> js_lt ?e ?t
            else js_lt ?t ?e \<and> js_lt ?e ?st"
    using g directional_ok [of "positionType s" ?e ?st ?t] by simp
  have fe: "is_fin ?e"
    using ok lt_between_fin [of ?st ?e ?t] lt_between_fin [of ?t ?e ?st]
    by (auto split: if_splits)
  have tn: "?t \<noteq> NaN" using g by (simp add: truthy_def)
  have p3: "price (tp3 ?L) = ?t" by (simp add: calculatePartialTPLevels_def Let_def)
  have D: "js_abs (js_sub ?t ?e) = fst (snd ?d)"
    using ok abs_sub_lt [of ?e ?t] abs_sub_lt [of ?t ?e]
    by (auto simp: directional_def split: if_splits)
  have rn: "fst (snd ?d) \<noteq> NaN"
    using abs_sub_not_nan [OF fe tn] by (simp add: D)
  have nz: "\<not> is_zero (js_abs (js_sub (price (tp3 ?L)) ?e))"
    using g rn not_le0_nonzero [of "fst (snd ?d)"] by (simp add: p3 D)
  have "avgExitRMultiple (calculatePartialTPProfits s ?L (recommendedAssets r) (riskPerCoin r) ?e)
      = js_div (js_abs (js_sub (price (tp3 ?L)) ?e)) (riskPerCoin r)"
    using levels_fin [OF fe fs tn, of "positionType s"]
    by (intro profits_all_at_target z A fe nz) simp_all
  also have "\<dots> = ratio r"
    using f g by (simp add: p3 D)
  finally show ?thesis
    using f cap en by simp
qed

theorem avg_exit_equals_ratio_witness:
  "\<exists>r p. calculateRiskReward
        \<lparr> entryPrice = Fin 100, stopLoss = Fin 95, takeProfit = Fin 115,
          totalCapital = Fin 10000, riskPercentage = Fin 1, assetAllocation = Fin 10,
          maxLeverage = Fin 75, positionType = Long, exchangeRate = Fin (1463 / 25),
          isLoadingRate = False, enablePartialTP = True,
          partialTP1Percent = Fin 0, partialTP2Percent = Fin 0 \<rparr> = Some (Sizing r)
     \<and> truthy (Fin 10000) \<and> is_zero (Fin 0) \<and> is_fin (Fin 95)
     \<and> recommendedAssets r = Fin 20
     \<and> partialTPProfits r = Some p \<and> avgExitRMultiple p = Fin 3 \<and> ratio r = Fin 3"
proof -
  let ?s = "\<lparr> entryPrice = Fin 100, stopLoss = Fin 95, takeProfit = Fin 115,
          totalCapital = Fin 10000, riskPercentage = Fin 1, assetAllocation = Fin 10,
          maxLeverage = Fin 75, positionType = Long, exchangeRate = Fin (1463 / 25),
          isLoadingRate = False, enablePartialTP = True,
          partialTP1Percent = Fin 0, partialTP2Percent = Fin 0 \<rparr>"
  obtain r where r: "calculateRiskReward ?s = Some (Sizing r)"
      "recommendedAssets r = Fin 20" "ratio r = Fin 3"
    by (simp add: calculateRiskReward_def directional_def lev_defs js_arith_defs Let_def)
  have t: "truthy (Fin 10000)" by (simp add: truthy_def)
  from avg_exit_equals_ratio [OF r(1)] r(2) t
  obtain p where "partialTPProfits r = Some p" "avgExitRMultiple p = ratio r"
    by auto
  with r t show ?thesis by auto
qed

subsection \<open>The recommended leverage\<close>

lemma round_cases:
  "x \<noteq> NaN \<Longrightarrow> js_round x = PInf \<or> js_round x = NInf \<or> js_round x = NZero
     \<or> (\<exists>i::int. js_round x = Fin (of_int i))"
  by (cases x) (auto simp: signed_zero_def)

lemma clamped_int:
  assumes x: "x \<noteq> NaN" and k: "1 \<le> k"
  shows "\<exists>j::int. lev_clamped x (Fin (of_int k)) = Fin (of_int j) \<and> 1 \<le> j \<and> j \<le> k"
proof -
  from round_cases [OF x] consider "js_round x = PInf" | "js_round x = NInf"
    | "js_round x = NZero" | i where "js_round x = Fin (of_int i)" by blast
  then show ?thesis
  proof cases
    case 1
    then have "lev_clamped x (Fin (of_int k)) = Fin (of_int k)"
      using k by (simp add: lev_clamped_def js_max_def js_min_def)
    with k show ?thesis by blast
  next
    case 2
    then have "lev_clamped x (Fin (of_int k)) = Fin (of_int 1)"
      using k by (simp add: lev_clamped_def js_max_def js_min_def)
    with k show ?thesis by blast
  next
    case 3
    then have "lev_clamped x (Fin (of_int k)) = Fin (of_int 1)"
      using k by (simp add: lev_clamped_def js_max_def js_min_def)
    with k show ?thesis by blast
  next
    case 4
    then have "lev_clamped x (Fin (of_int k)) = Fin (of_int (max 1 (min i k)))"
      using k by (auto simp: lev_clamped_def js_max_def js_min_def max_def min_def)
    moreover have "1 \<le> max 1 (min i k) \<and> max 1 (min i k) \<le> k" using k by simp
    ultimately show ?thesis by blast
  qed
qed

lemma min_int:
  assumes "y = Fin (of_int j)" "1 \<le> j" "j \<le> k" "1 \<le> c"
  shows "\<exists>j'::int. js_min y (Fin (of_int c)) = Fin (of_int j') \<and> 1 \<le> j' \<and> j' \<le> k"
proof -
  have "js_min y (Fin (of_int c)) = Fin (of_int (min j c))"
    using assms by (auto simp: js_min_def min_def)
  moreover have "1 \<le> min j c \<and> min j c \<le> k" using assms by simp
  ultimately show ?thesis by blast
qed

lemma ladder_int:
  assumes "y = Fin (of_int j)" "1 \<le> j" "j \<le> k"
  shows "\<exists>j'::int. lev_ladder rpm y = Fin (of_int j') \<and> 1 \<le> j' \<and> j' \<le> k"
proof -
  have m0: "\<exists>j'::int. y = Fin (of_int j') \<and> 1 \<le> j' \<and> j' \<le> k" using assms by blast
  have m2: "\<exists>j'::int. js_min y (Fin 2) = Fin (of_int j') \<and> 1 \<le> j' \<and> j' \<le> k"
    using min_int [OF assms, of 2] by simp
  have m5: "\<exists>j'::int. js_min y (Fin 5) = Fin (of_int j') \<and> 1 \<le> j' \<and> j' \<le> k"
    using min_int [OF assms, of 5] by simp
  have m10: "\<exists>j'::int. js_min y (Fin 10) = Fin (of_int j') \<and> 1 \<le> j' \<and> j' \<le> k"
    using min_int [OF assms, of 10] by simp
  have m20: "\<exists>j'::int. js_min y (Fin 20) = Fin (of_int j') \<and> 1 \<le> j' \<and> j' \<le> k"
    using min_int [OF assms, of 20] by simp
  show ?thesis
  proof (cases "js_ge rpm (Fin 10)")
    case True
    then show ?thesis using m2 by (simp add: lev_ladder_def)
  next
    case a: False
    show ?thesis
    proof (cases "js_ge rpm (Fin 5)")
      case True
      then show ?thesis using a m5 by (simp add: lev_ladder_def)
    next
      case b: False
      show ?thesis
      proof (cases "js_ge rpm (Fin 3)")
        case True
        then show ?thesis using a b m10 by (simp add: lev_ladder_def)
      next
        case c: False
        show ?thesis
        proof (cases "js_ge rpm (Fin 2)")
          case True
          then show ?thesis using a b c m20 by (simp add: lev_ladder_def)
        next
          case False
          then show ?thesis using a b c m0 by (simp add: lev_ladder_def)
        qed
      qed
    qed
  qed
qed

lemma optimalLeverage_number:
  assumes "is_fin entry" "is_fin stop" "is_fin capital" "is_fin riskPct" "is_fin allocation"
    and "rv entry \<noteq> 0" "rv entry \<noteq> rv stop" "rv capital \<noteq> 0" "rv allocation \<noteq> 0"
  shows "lev_optimalLeverage capital riskPct allocation (lev_riskPercentageMove entry stop) \<noteq> NaN"
proof -
  let ?risk = "js_abs (js_sub entry stop)"
  have risk: "is_fin ?risk" "rv ?risk = \<bar>rv entry - rv stop\<bar>"
    using fin_sub [OF assms(1,2)] fin_abs [of "js_sub entry stop"] by simp_all
  have d: "is_fin (js_div ?risk entry)" "rv (js_div ?risk entry) = rv ?risk / rv entry"
    using fin_div [OF risk(1) assms(1,6)] by simp_all
  have rpm: "is_fin (lev_riskPercentageMove entry stop)"
      "rv (lev_riskPercentageMove entry stop) \<noteq> 0"
    using fin_mul [OF d(1), of "Fin 100"] assms(6,7)
    by (simp_all add: lev_riskPercentageMove_def d(2) risk(2))
  have u: "is_fin (js_div (lev_riskPercentageMove entry stop) (Fin 100))"
      "rv (js_div (lev_riskPercentageMove entry stop) (Fin 100)) \<noteq> 0"
    using fin_div [OF rpm(1), of "Fin 100"] rpm(2) by simp_all
  have M: "is_fin (js_div (js_mul capital riskPct) (Fin 100))"
    using fin_mul [OF assms(3,4)] fin_div [of "js_mul capital riskPct" "Fin 100"] by simp
  have A: "is_fin (js_div (js_mul capital allocation) (Fin 100))"
      "rv (js_div (js_mul capital allocation) (Fin 100)) \<noteq> 0"
    using fin_mul [OF assms(3,5)] fin_div [of "js_mul capital allocation" "Fin 100"] assms(8,9)
    by auto
  have q: "is_fin (js_mul (js_div (js_mul capital allocation) (Fin 100))
                    (js_div (lev_riskPercentageMove entry stop) (Fin 100)))"
      "rv (js_mul (js_div (js_mul capital allocation) (Fin 100))
                    (js_div (lev_riskPercentageMove entry stop) (Fin 100))) \<noteq> 0"
    using fin_mul [OF A(1) u(1)] A(2) u(2) by simp_all
  have "is_fin (lev_optimalLeverage capital riskPct allocation (lev_riskPercentageMove entry stop))"
    using fin_div [OF M q] by (simp add: lev_optimalLeverage_def Let_def)
  then show ?thesis by auto
qed

text \<open>
  C2, as stated, fails: with the maximal leverage not a number the recommendation is not
  a number; with a maximal leverage below 1 the recommendation is 1, above the maximum;
  with a maximal leverage that is not an integer the recommendation can be that value.
\<close>

theorem leverage_range_counterexample:
  "optimal (calculateOptimalLeverage (Fin 100) (Fin 95) (Fin 10000) (Fin 1) (Fin 10) NaN) = NaN
   \<and> optimal (calculateOptimalLeverage (Fin 100) (Fin 95) (Fin 10000) (Fin 1) (Fin 10) (Fin (1 / 2)))
       = Fin 1
   \<and> \<not> js_le (Fin 1) (Fin (1 / 2))
   \<and> optimal (calculateOptimalLeverage (Fin 100) (Fin 99) (Fin 10000) (Fin 1) (Fin 10) (Fin (5 / 2)))
       = Fin (5 / 2)"
  by (simp add: lev_unfold js_arith_defs)

text \<open>
  C2, amended. When the maximal leverage is an integer that is at least 1 and the raw
  optimal leverage is a number, the recommended leverage is an integer between 1 and the
  maximal leverage. The raw optimal leverage is a number in particular when entry, stop,
  capital, risk percentage and allocation percentage are finite, entry, capital and
  allocation are nonzero and entry and stop differ (\<open>optimalLeverage_number\<close>).
\<close>

theorem leverage_integer_in_range:
  assumes "maxLev = Fin (of_int k)" and "1 \<le> k"
    and "lev_optimalLeverage capital riskPct allocation (lev_riskPercentageMove entry stop) \<noteq> NaN"
  shows "\<exists>j::int. optimal (calculateOptimalLeverage entry stop capital riskPct allocation maxLev)
            = Fin (of_int j) \<and> 1 \<le> j \<and> j \<le> k"
proof -
  from clamped_int [OF assms(3,2)] obtain j where
    j: "lev_clamped (lev_optimalLeverage capital riskPct allocation (lev_riskPercentageMove entry stop))
          (Fin (of_int k)) = Fin (of_int j)" "1 \<le> j" "j \<le> k" by blast
  from ladder_int [OF j, of "lev_riskPercentageMove entry stop"] show ?thesis
    by (simp add: calculateOptimalLeverage_def Let_def assms(1))
qed

theorem leverage_integer_in_range_witness:
  "(1::int) \<le> 75
   \<and> lev_optimalLeverage (Fin 10000) (Fin 1) (Fin 10) (lev_riskPercentageMove (Fin 100) (Fin 95)) = Fin 2
   \<and> (\<exists>j::int. optimal (calculateOptimalLeverage (Fin 100) (Fin 95) (Fin 10000) (Fin 1) (Fin 10) (Fin 75))
            = Fin (of_int j) \<and> 1 \<le> j \<and> j \<le> 75)"
proof -
  have o: "lev_optimalLeverage (Fin 10000) (Fin 1) (Fin 10) (lev_riskPercentageMove (Fin 100) (Fin 95)) = Fin 2"
    by (simp add: lev_defs js_arith_defs Let_def)
  have "\<exists>j::int. optimal (calculateOptimalLeverage (Fin 100) (Fin 95) (Fin 10000) (Fin 1) (Fin 10) (Fin 75))
            = Fin (of_int j) \<and> 1 \<le> j \<and> j \<le> 75"
    by (rule leverage_integer_in_range) (simp_all add: o)
  with o show ?thesis by simp
qed

subsection \<open>Monotonicity of the recommended leverage\<close>

lemma le_trans_js: "js_le a b \<Longrightarrow> js_le b c \<Longrightarrow> js_le a c"
  by (cases a; cases b; cases c) simp_all

lemma le_not_gt: "js_le a b \<Longrightarrow> \<not> js_lt b a"
  by (cases a; cases b) simp_all

lemma round_mono: "js_le x y \<Longrightarrow> js_le (js_round x) (js_round y)"
proof (cases x; cases y)
  fix a b assume xy: "js_le x y" "x = Fin a" "y = Fin b"
  then have "\<lfloor>a + 1 / 2\<rfloor> \<le> \<lfloor>b + 1 / 2\<rfloor>" by (simp add: floor_mono)
  then have "(of_int \<lfloor>a + 1 / 2\<rfloor> :: real) \<le> of_int \<lfloor>b + 1 / 2\<rfloor>" by simp
  then show ?thesis using xy by (auto simp: signed_zero_def)
next
  fix b assume xy: "js_le x y" "x = NZero" "y = Fin b"
  then have "0 \<le> \<lfloor>b + 1 / 2\<rfloor>" by simp
  then have "(0::real) \<le> of_int \<lfloor>b + 1 / 2\<rfloor>" by simp
  then show ?thesis using xy by (auto simp: signed_zero_def)
next
  fix a assume xy: "js_le x y" "x = Fin a" "y = NZero"
  then have "\<lfloor>a + 1 / 2\<rfloor> \<le> 0" by (simp add: floor_le_iff)
  then have "(of_int \<lfloor>a + 1 / 2\<rfloor> :: real) \<le> 0" by simp
  then show ?thesis using xy by (auto simp: signed_zero_def)
qed (auto simp: signed_zero_def)

lemma min_mono: "js_le x y \<Longrightarrow> m \<noteq> NaN \<Longrightarrow> js_le (js_min x m) (js_min y m)"
  by (cases x; cases y; cases m) (auto simp: js_min_def)

lemma max_mono: "js_le x y \<Longrightarrow> js_le (js_max (Fin 1) x) (js_max (Fin 1) y)"
  by (cases x; cases y) (auto simp: js_max_def)

lemma clamped_mono: "js_le x y \<Longrightarrow> m \<noteq> NaN \<Longrightarrow> js_le (lev_clamped x m) (lev_clamped y m)"
  unfolding lev_clamped_def by (intro max_mono min_mono round_mono)


lemma real_quot_antimono:
  fixes x y a b :: real
  assumes "0 < a" "a \<le> b" "0 \<le> x / y"
  shows "x / (y * b) \<le> x / (y * a)"
proof -
  have "x / (y * b) = (x / y) / b" "x / (y * a) = (x / y) / a" by simp_all
  moreover have "(x / y) / b \<le> (x / y) / a"
    using assms by (intro divide_left_mono) (simp_all add: zero_less_mult_iff)
  ultimately show ?thesis by simp
qed

lemma real_quot_nonpos:
  fixes x y a :: real
  assumes "0 < a" "x / y \<le> 0"
  shows "x / (y * a) \<le> 0"
proof -
  have e: "x / (y * a) = (x / y) / a" by simp
  have "(x / y) / a \<le> 0" using assms(2,1) by (rule divide_nonpos_pos)
  then show ?thesis unfolding e .
qed

lemma quot_mono_fin:
  fixes x y a b :: real
  assumes "0 < a" "a \<le> b"
  shows "x / (y * b) \<le> x / (y * a) \<or> (x / (y * a) \<le> 0 \<and> x / (y * b) \<le> 0)"
proof (cases "0 \<le> x / y")
  case True
  then show ?thesis using real_quot_antimono [OF assms] by simp
next
  case False
  then have "x / y \<le> 0" by simp
  then show ?thesis using real_quot_nonpos [of a x y] real_quot_nonpos [of b x y] assms by simp
qed

lemma quotient_antitone:
  assumes "\<not> is_neg u1" "\<not> is_neg u2" "js_le u1 u2"
  shows "js_div M (js_mul A u1) = NaN \<or> js_div M (js_mul A u2) = NaN
       \<or> js_le (js_div M (js_mul A u2)) (js_div M (js_mul A u1))
       \<or> (js_le (js_div M (js_mul A u1)) (Fin 0) \<and> js_le (js_div M (js_mul A u2)) (Fin 0))"
proof (cases "\<exists>x y a b. M = Fin x \<and> A = Fin y \<and> u1 = Fin a \<and> u2 = Fin b \<and> x \<noteq> 0 \<and> y \<noteq> 0 \<and> 0 < a")
  case True
  then obtain x y a b where v: "M = Fin x" "A = Fin y" "u1 = Fin a" "u2 = Fin b"
      "x \<noteq> 0" "y \<noteq> 0" "0 < a" by blast
  with assms have ab: "a \<le> b" by simp
  with v have "0 < b" by simp
  then show ?thesis
    using v ab quot_mono_fin [OF v(7) ab, of x y]
    by (simp add: js_mul_def js_div_def)
next
  case False
  then show ?thesis
    using assms
    by (cases M; cases A; cases u1; cases u2)
       (auto simp: js_mul_def js_div_def signed_zero_def signed_inf_def sign_rules)
qed


lemma rpm_sign:
  assumes "js_lt (Fin 0) entry"
  shows "lev_riskPercentageMove entry stop = NaN \<or> \<not> is_neg (lev_riskPercentageMove entry stop)"
proof -
  have a: "\<not> is_neg (js_abs (js_sub entry stop))" by (rule abs_nonneg)
  have "js_div a entry = NaN \<or> \<not> is_neg (js_div a entry)" if "\<not> is_neg a" for a
    using that assms
    by (cases a; cases entry) (auto simp: js_div_def signed_zero_def signed_inf_def sign_rules)
  from this [OF a] have d: "js_div (js_abs (js_sub entry stop)) entry = NaN
      \<or> \<not> is_neg (js_div (js_abs (js_sub entry stop)) entry)" .
  have "js_mul q (Fin 100) = NaN \<or> \<not> is_neg (js_mul q (Fin 100))" if "q = NaN \<or> \<not> is_neg q" for q
    using that by (cases q) (auto simp: js_mul_def signed_zero_def signed_inf_def sign_rules)
  from this [OF d] show ?thesis by (simp add: lev_riskPercentageMove_def)
qed

lemma div100_mono:
  assumes "\<not> is_neg r1" "\<not> is_neg r2" "js_le r1 r2"
  shows "\<not> is_neg (js_div r1 (Fin 100)) \<and> \<not> is_neg (js_div r2 (Fin 100))
       \<and> js_le (js_div r1 (Fin 100)) (js_div r2 (Fin 100))"
  using assms
  by (cases r1; cases r2) (auto simp: js_div_def signed_zero_def signed_inf_def sign_rules)

lemma clamped_nonpos: "js_le x (Fin 0) \<Longrightarrow> m \<noteq> NaN \<Longrightarrow> lev_clamped x m = Fin 1"
proof -
  assume x: "js_le x (Fin 0)" and m: "m \<noteq> NaN"
  have "js_le (js_round x) (js_round (Fin 0))" using x by (rule round_mono)
  then have r: "js_le (js_round x) (Fin 0)" by (simp add: signed_zero_def)
  have "js_le (js_min y m) (Fin 0)" if "js_le y (Fin 0)" for y
    using that m by (cases y; cases m) (auto simp: js_min_def)
  from this [OF r] have "js_le (js_min (js_round x) m) (Fin 0)" .
  moreover have "js_max (Fin 1) z = Fin 1" if "js_le z (Fin 0)" for z
    using that by (cases z) (auto simp: js_max_def)
  ultimately show ?thesis by (simp add: lev_clamped_def)
qed

lemma clamped_nan: "lev_clamped NaN m = NaN" "lev_clamped x NaN = NaN"
  by (simp_all add: lev_clamped_def js_max_def js_min_def)

lemma ladder_nan: "lev_ladder r NaN = NaN"
  by (simp add: lev_ladder_def js_min_def)

lemma ladder_one: "lev_ladder r (Fin 1) = Fin 1"
  by (simp add: lev_ladder_def js_min_def)

lemma min_cap_mono:
  "js_le x y \<Longrightarrow> c \<le> d \<Longrightarrow> js_le (js_min x (Fin c)) (js_min y (Fin d))"
  by (cases x; cases y) (auto simp: js_min_def)

lemma min_cap_le: "js_le x y \<Longrightarrow> js_le (js_min x (Fin c)) y"
  by (cases x; cases y) (auto simp: js_min_def)

lemma ladder_caps: "x \<noteq> NaN \<Longrightarrow> js_le (lev_ladder r x) x"
  by (cases x) (auto simp: lev_ladder_def js_min_def)

lemma ladder_mono:
  assumes xy: "js_le x y" and r: "js_le r1 r2"
  shows "js_le (lev_ladder r2 x) (lev_ladder r1 y)"
proof -
  have t: "js_ge r1 (Fin c) \<Longrightarrow> js_ge r2 (Fin c)" for c
    using r le_trans_js [of "Fin c" r1 r2] by (simp add: js_ge_def)
  show ?thesis
    using t [of 10] t [of 5] t [of 3] t [of 2] xy
    by (simp add: lev_ladder_def min_cap_mono min_cap_le)
qed


lemma le_not_nan: "js_le a b \<Longrightarrow> a \<noteq> NaN \<and> b \<noteq> NaN"
  by (cases a; cases b) simp_all

text \<open>
  C4, as stated, fails: the stop distance as a percentage of the entry is negative for a
  negative entry price, and the pair with entry -100 and stop -101 (percentage -1) is
  given leverage 1 while the pair with entry 100 and stop 99 (percentage 1, the larger
  one) is given leverage 10.
\<close>

theorem leverage_monotone_counterexample:
  "js_lt (lev_riskPercentageMove (Fin (- 100)) (Fin (- 101))) (lev_riskPercentageMove (Fin 100) (Fin 99))
   \<and> optimal (calculateOptimalLeverage (Fin (- 100)) (Fin (- 101)) (Fin 10000) (Fin 1) (Fin 10) (Fin 75)) = Fin 1
   \<and> optimal (calculateOptimalLeverage (Fin 100) (Fin 99) (Fin 10000) (Fin 1) (Fin 10) (Fin 75)) = Fin 10
   \<and> js_gt (optimal (calculateOptimalLeverage (Fin 100) (Fin 99) (Fin 10000) (Fin 1) (Fin 10) (Fin 75)))
        (optimal (calculateOptimalLeverage (Fin (- 100)) (Fin (- 101)) (Fin 10000) (Fin 1) (Fin 10) (Fin 75)))"
  by (simp add: lev_unfold js_arith_defs)

text \<open>
  C4, amended. For fixed capital, risk percentage, allocation percentage and maximal
  leverage, and for any two entry and stop pairs with positive entry prices, the pair
  whose stop distance as a percentage of the entry is larger or equal never receives a
  strictly larger recommended leverage; and the volatility ladder never raises the
  clamped value.
\<close>

theorem leverage_monotone:
  assumes e1: "js_lt (Fin 0) entry1" and e2: "js_lt (Fin 0) entry2"
    and le: "js_le (lev_riskPercentageMove entry1 stop1) (lev_riskPercentageMove entry2 stop2)"
  shows "\<not> js_gt (optimal (calculateOptimalLeverage entry2 stop2 capital riskPct allocation maxLev))
               (optimal (calculateOptimalLeverage entry1 stop1 capital riskPct allocation maxLev))
       \<and> \<not> js_gt (optimal (calculateOptimalLeverage entry1 stop1 capital riskPct allocation maxLev))
               (lev_clamped (lev_optimalLeverage capital riskPct allocation
                   (lev_riskPercentageMove entry1 stop1)) maxLev)"
proof -
  let ?r1 = "lev_riskPercentageMove entry1 stop1" and ?r2 = "lev_riskPercentageMove entry2 stop2"
  let ?M = "js_div (js_mul capital riskPct) (Fin 100)"
  let ?A = "js_div (js_mul capital allocation) (Fin 100)"
  let ?g1 = "lev_optimalLeverage capital riskPct allocation ?r1"
  let ?g2 = "lev_optimalLeverage capital riskPct allocation ?r2"
  let ?l1 = "lev_ladder ?r1 (lev_clamped ?g1 maxLev)"
  let ?l2 = "lev_ladder ?r2 (lev_clamped ?g2 maxLev)"
  have o: "optimal (calculateOptimalLeverage entry1 stop1 capital riskPct allocation maxLev) = ?l1"
      "optimal (calculateOptimalLeverage entry2 stop2 capital riskPct allocation maxLev) = ?l2"
    by (simp_all add: calculateOptimalLeverage_def Let_def)
  have caps: "\<not> js_lt (lev_clamped ?g1 maxLev) ?l1"
  proof (cases "lev_clamped ?g1 maxLev = NaN")
    case True
    then show ?thesis by (simp add: ladder_nan)
  next
    case False
    then show ?thesis using ladder_caps [of "lev_clamped ?g1 maxLev" ?r1] by (simp add: le_not_gt)
  qed
  have n: "?r1 \<noteq> NaN" "?r2 \<noteq> NaN" using le_not_nan [OF le] by simp_all
  have s: "\<not> is_neg ?r1" "\<not> is_neg ?r2"
    using rpm_sign [OF e1, of stop1] rpm_sign [OF e2, of stop2] n by simp_all
  note u = div100_mono [OF s le]
  have g: "?g1 = js_div ?M (js_mul ?A (js_div ?r1 (Fin 100)))"
      "?g2 = js_div ?M (js_mul ?A (js_div ?r2 (Fin 100)))"
    by (simp_all add: lev_optimalLeverage_def Let_def)
  have mono: "\<not> js_lt ?l1 ?l2"
  proof (cases "maxLev = NaN")
    case True
    then show ?thesis by (simp add: clamped_nan ladder_nan)
  next
    case m: False
    from quotient_antitone [of "js_div ?r1 (Fin 100)" "js_div ?r2 (Fin 100)" ?M ?A] u
    consider "?g1 = NaN" | "?g2 = NaN" | "js_le ?g2 ?g1"
      | "js_le ?g1 (Fin 0)" "js_le ?g2 (Fin 0)"
      unfolding g by blast
    then show ?thesis
    proof cases
      case 1
      then show ?thesis by (simp add: clamped_nan ladder_nan)
    next
      case 2
      then show ?thesis by (simp add: clamped_nan ladder_nan)
    next
      case 3
      from clamped_mono [OF 3 m] have "js_le ?l2 ?l1" using le by (rule ladder_mono)
      then show ?thesis by (rule le_not_gt)
    next
      case 4
      then show ?thesis using m by (simp add: clamped_nonpos ladder_one)
    qed
  qed
  show ?thesis
    using mono caps by (simp only: o js_gt_def simp_thms)
qed

theorem leverage_monotone_witness:
  "js_lt (Fin 0) (Fin 100)
   \<and> js_le (lev_riskPercentageMove (Fin 100) (Fin 99)) (lev_riskPercentageMove (Fin 100) (Fin 95))
   \<and> optimal (calculateOptimalLeverage (Fin 100) (Fin 99) (Fin 10000) (Fin 1) (Fin 10) (Fin 75)) = Fin 10
   \<and> optimal (calculateOptimalLeverage (Fin 100) (Fin 95) (Fin 10000) (Fin 1) (Fin 10) (Fin 75)) = Fin 2
   \<and> \<not> js_gt (optimal (calculateOptimalLeverage (Fin 100) (Fin 95) (Fin 10000) (Fin 1) (Fin 10) (Fin 75)))
        (optimal (calculateOptimalLeverage (Fin 100) (Fin 99) (Fin 10000) (Fin 1) (Fin 10) (Fin 75)))"
proof -
  have h: "js_lt (Fin 0) (Fin 100)"
    "js_le (lev_riskPercentageMove (Fin 100) (Fin 99)) (lev_riskPercentageMove (Fin 100) (Fin 95))"
    by (simp_all add: lev_riskPercentageMove_def js_arith_defs)
  have v: "optimal (calculateOptimalLeverage (Fin 100) (Fin 99) (Fin 10000) (Fin 1) (Fin 10) (Fin 75)) = Fin 10"
    "optimal (calculateOptimalLeverage (Fin 100) (Fin 95) (Fin 10000) (Fin 1) (Fin 10) (Fin 75)) = Fin 2"
    by (simp_all add: lev_unfold js_arith_defs)
  from leverage_monotone [OF h(1) h(1) h(2), of "Fin 10000" "Fin 1" "Fin 10" "Fin 75"] h v
  show ?thesis by simp
qed

end
